theory Spec2Isabelle
  imports Complex_Main
begin

section \<open>Values exchanged with the remote service\<close>

text \<open>
  The driver in \<^verbatim>\<open>livysession.py\<close> talks to a Livy-style REST service. Every response
  body is decoded by \<^verbatim>\<open>response.json()\<close> into Python dictionaries, lists, strings and
  numbers; the type \<open>json\<close> is that decoded value. A dictionary is an association list
  whose first binding of a key is the dictionary's value for it. Strings are lists of
  characters, a character standing for a code point below 256.
\<close>

datatype json =
    JNull
  | JBool bool
  | JInt int
  | JFloat real
  | JStr string
  | JArr "json list"
  | JObj "(string \<times> json) list"

text \<open>
  Exceptions are values. The first five are the classes of \<^verbatim>\<open>requests.exceptions\<close> the
  code names (\<open>RequestException\<close> stands for any other subclass of that base class);
  \<open>CredentialError\<close> is what the identity library raises, \<open>ExternalError\<close> what any other
  collaborator raises.
\<close>

datatype exn =
    ConnectionError
  | HTTPError
  | Timeout
  | RequestException
  | JSONDecodeError
  | KeyError
  | TypeError
  | AttributeError
  | Exception string
  | DbtDatabaseError string
  | CredentialError string
  | ExternalError string

text \<open>
  \<^verbatim>\<open>except requests.exceptions.RequestException\<close> catches the base class and all of its
  subclasses; \<^verbatim>\<open>requests.exceptions.JSONDecodeError\<close> is one of them.
\<close>

fun is_RequestException :: "exn \<Rightarrow> bool" where
  "is_RequestException ConnectionError = True"
| "is_RequestException HTTPError = True"
| "is_RequestException Timeout = True"
| "is_RequestException RequestException = True"
| "is_RequestException JSONDecodeError = True"
| "is_RequestException _ = False"

text \<open>
  \<^verbatim>\<open>d[key]\<close> with a string key: a dictionary raises \<open>KeyError\<close> for a missing key, every
  other decoded value raises \<open>TypeError\<close> (lists and strings want integer indices, numbers,
  booleans and \<open>None\<close> are not subscriptable).
\<close>

fun getitem :: "json \<Rightarrow> string \<Rightarrow> exn + json" where
  "getitem (JObj kvs) k = (case map_of kvs k of None \<Rightarrow> Inl KeyError | Some v \<Rightarrow> Inr v)"
| "getitem _ k = Inl TypeError"

text \<open>\<^verbatim>\<open>len(v)\<close>: the number of keys, elements or characters; numbers have no length.\<close>

fun py_len :: "json \<Rightarrow> exn + nat" where
  "py_len (JObj kvs) = Inr (length (remdups (map fst kvs)))"
| "py_len (JArr xs) = Inr (length xs)"
| "py_len (JStr s) = Inr (length s)"
| "py_len _ = Inl TypeError"

text \<open>
  \<^verbatim>\<open>for field in v\<close>: a list yields its elements, a dictionary its keys, a string its
  characters; anything else is not iterable.
\<close>

fun py_iter :: "json \<Rightarrow> exn + json list" where
  "py_iter (JArr xs) = Inr xs"
| "py_iter (JObj kvs) = Inr (map JStr (remdups (map fst kvs)))"
| "py_iter (JStr s) = Inr (map (\<lambda>c. JStr [c]) s)"
| "py_iter _ = Inl TypeError"

text \<open>Substring test, for \<^verbatim>\<open>pattern in text\<close> on two strings.\<close>

fun is_substring :: "string \<Rightarrow> string \<Rightarrow> bool" where
  "is_substring p [] = (p = [])"
| "is_substring p (c # cs) = (take (length p) (c # cs) = p \<or> is_substring p cs)"

text \<open>
  \<^verbatim>\<open>pattern in v\<close> for a string \<open>pattern\<close>: substring test on a string, membership on a
  list, key membership on a dictionary, \<open>TypeError\<close> on anything else.
\<close>

fun py_in :: "string \<Rightarrow> json \<Rightarrow> exn + bool" where
  "py_in p (JStr s) = Inr (is_substring p s)"
| "py_in p (JArr xs) = Inr (JStr p \<in> set xs)"
| "py_in p (JObj kvs) = Inr (p \<in> set (map fst kvs))"
| "py_in p _ = Inl TypeError"

section \<open>Binding conversion\<close>

text \<open>
  \<^verbatim>\<open>_fix_binding\<close> dispatches on \<^verbatim>\<open>isinstance\<close>. The values a binding can be are modelled
  with their classes; \<open>bool\<close> is a subclass of \<open>int\<close>, as in Python. A \<open>datetime\<close> is
  represented by the text of \<^verbatim>\<open>value.strftime('%Y-%m-%d %H:%M:%S.%f')\<close>, any other object by
  the text of \<^verbatim>\<open>str(value)\<close>: these are the only observations the code makes of them.
\<close>

datatype pyclass =
  Cls_bool | Cls_int | Cls_float | Cls_Decimal | Cls_datetime | Cls_NoneType | Cls_str | Cls_object

datatype pyval =
    PBool bool
  | PInt int
  | PFloat real
  | PDecimal real
  | PDatetime string
  | PNone
  | PStr string
  | PObj string

fun class_of :: "pyval \<Rightarrow> pyclass" where
  "class_of (PBool _) = Cls_bool"
| "class_of (PInt _) = Cls_int"
| "class_of (PFloat _) = Cls_float"
| "class_of (PDecimal _) = Cls_Decimal"
| "class_of (PDatetime _) = Cls_datetime"
| "class_of PNone = Cls_NoneType"
| "class_of (PStr _) = Cls_str"
| "class_of (PObj _) = Cls_object"

definition issubclass :: "pyclass \<Rightarrow> pyclass \<Rightarrow> bool" where
  "issubclass c d = (c = d \<or> d = Cls_object \<or> (c = Cls_bool \<and> d = Cls_int))"

definition isinstance :: "pyval \<Rightarrow> pyclass list \<Rightarrow> bool" where
  "isinstance v cs = list_ex (issubclass (class_of v)) cs"

text \<open>
  \<^verbatim>\<open>DECIMALS\<close> comes from \<^verbatim>\<open>dbt.utils\<close> (the dbt-core package): the tuple of the decimal
  classes, \<^verbatim>\<open>(decimal.Decimal,)\<close>. \<^verbatim>\<open>NUMBERS = DECIMALS + (int, float)\<close>.
\<close>

definition DECIMALS :: "pyclass list" where
  "DECIMALS = [Cls_Decimal]"

definition NUMBERS :: "pyclass list" where
  "NUMBERS = DECIMALS @ [Cls_int, Cls_float]"

datatype binding = BFloat real | BStr string

text \<open>
  \<^verbatim>\<open>float(value)\<close>: a bool gives 1.0 or 0.0, a float is itself, an integer of magnitude at
  most \<open>2 ^ 53\<close> is exactly representable. Larger integers and decimals are rounded to a
  double, or raise when out of range: that rounding is the parameter \<open>to_double\<close>.
\<close>

fun py_float :: "(real \<Rightarrow> exn + real) \<Rightarrow> pyval \<Rightarrow> exn + real" where
  "py_float to_double (PBool b) = Inr (if b then 1 else 0)"
| "py_float to_double (PInt n) =
     (if \<bar>n\<bar> \<le> 2 ^ 53 then Inr (real_of_int n) else to_double (real_of_int n))"
| "py_float to_double (PFloat x) = Inr x"
| "py_float to_double (PDecimal d) = to_double d"
| "py_float to_double _ = Inl TypeError"

text \<open>\<^verbatim>\<open>s[:-3]\<close>: all but the last three characters.\<close>

definition drop_last3 :: "string \<Rightarrow> string" where
  "drop_last3 s = take (length s - 3) s"

text \<open>
  The last branch, \<^verbatim>\<open>f"'{value}'"\<close>, formats the value with \<^verbatim>\<open>str\<close>. Only strings and
  other objects reach it: every other constructor is an instance of a class tested before.
\<close>

definition quoted :: "string \<Rightarrow> string" where
  "quoted s = [CHR 0x27] @ s @ [CHR 0x27]"

definition fix_binding :: "(real \<Rightarrow> exn + real) \<Rightarrow> pyval \<Rightarrow> exn + binding" where
  "fix_binding to_double v0 =
     (if isinstance v0 NUMBERS then
        (case py_float to_double v0 of Inl e \<Rightarrow> Inl e | Inr x \<Rightarrow> Inr (BFloat x))
      else if isinstance v0 [Cls_datetime] then
        (case v0 of PDatetime s \<Rightarrow> Inr (BStr (quoted (drop_last3 s))) | _ \<Rightarrow> Inl TypeError)
      else if v0 = PNone then Inr (BStr (quoted []))
      else (case v0 of
              PStr s \<Rightarrow> Inr (BStr (quoted s))
            | PObj r \<Rightarrow> Inr (BStr (quoted r))
            | _ \<Rightarrow> Inl TypeError))"

section \<open>Stripping block comments from SQL\<close>

text \<open>
  \<^verbatim>\<open>_getLivySQL\<close> is
  \<^verbatim>\<open>re.sub(r"\s*/\*(.|\n)*?\*/\s*", "\n", sql, re.DOTALL).strip()\<close>.
  The fourth positional parameter of \<^verbatim>\<open>re.sub\<close> is \<open>count\<close>, the largest number of
  replacements (0 for no limit); \<^verbatim>\<open>re.DOTALL\<close> is the integer flag 16.

  \<open>is_space\<close> is what \<^verbatim>\<open>\s\<close> matches and what \<^verbatim>\<open>str.strip\<close> removes, for code points
  below 256: tab, line feed, vertical tab, form feed, carriage return, the separators
  0x1C to 0x1F, space, 0x85 and 0xA0.
\<close>

definition is_space :: "char \<Rightarrow> bool" where
  "is_space c = (c \<in> set [CHR 0x09, CHR 0x0A, CHR 0x0B, CHR 0x0C, CHR 0x0D, CHR 0x1C,
     CHR 0x1D, CHR 0x1E, CHR 0x1F, CHR 0x20, CHR 0x85, CHR 0xA0])"

text \<open>
  \<open>find_close s\<close> is the lazy \<^verbatim>\<open>(.|\n)*?\*/\<close>: it consumes up to and including the first
  \<^verbatim>\<open>*/\<close> of \<open>s\<close> and returns what follows, or fails when there is none.
\<close>

fun find_close :: "string \<Rightarrow> string option" where
  "find_close (c # d # cs) =
     (if c = CHR ''*'' \<and> d = CHR ''/'' then Some cs else find_close (d # cs))"
| "find_close _ = None"

text \<open>
  \<open>match_here s\<close> matches the whole pattern at the start of \<open>s\<close> and returns the rest of
  the string after the match. The greedy \<^verbatim>\<open>\s*\<close> takes the longest run of white space;
  giving some of it back cannot help, since \<^verbatim>\<open>/\<close> is not white space.
\<close>

definition match_here :: "string \<Rightarrow> string option" where
  "match_here s =
     (case dropWhile is_space s of
        c # d # r \<Rightarrow>
          (if c = CHR ''/'' \<and> d = CHR ''*'' then map_option (dropWhile is_space) (find_close r)
           else None)
      | _ \<Rightarrow> None)"

lemma find_close_shorter: "find_close s = Some r \<Longrightarrow> length r < length s"
  by (induction s arbitrary: r rule: find_close.induct) (auto split: if_splits)

lemma match_here_shorter: "match_here s = Some r \<Longrightarrow> length r < length s"
proof -
  assume m: "match_here s = Some r"
  then obtain t u where d: "dropWhile is_space s = CHR ''/'' # CHR ''*'' # t"
    and u: "find_close t = Some u" and r: "r = dropWhile is_space u"
    by (auto simp: match_here_def split: list.splits if_splits)
  have "length r \<le> length u" using r by (simp add: length_dropWhile_le)
  also have "\<dots> < length t" using u by (rule find_close_shorter)
  also have "\<dots> < length (dropWhile is_space s)" using d by simp
  also have "\<dots> \<le> length s" by (rule length_dropWhile_le)
  finally show ?thesis .
qed

text \<open>
  \<open>sub_from budget s\<close> scans \<open>s\<close> from the left, replacing each leftmost match by a line
  feed and going on after it; \<open>budget\<close> is the number of replacements still allowed
  (\<open>None\<close>: no limit).
\<close>

function sub_from :: "nat option \<Rightarrow> string \<Rightarrow> string" where
  "sub_from budget s =
     (if budget = Some 0 then s
      else (case s of
              [] \<Rightarrow> []
            | c # cs \<Rightarrow>
                (case match_here s of
                   Some rest \<Rightarrow> CHR 0x0A # sub_from (map_option (\<lambda>n. n - 1) budget) rest
                 | None \<Rightarrow> c # sub_from budget cs)))"
  by pat_completeness auto
termination
  by (relation "measure (\<lambda>(budget, s). length s)") (auto dest: match_here_shorter)

definition re_sub :: "nat \<Rightarrow> string \<Rightarrow> string" where
  "re_sub count s = sub_from (if count = 0 then None else Some count) s"

definition DOTALL :: nat where
  "DOTALL = 16"

definition strip :: "string \<Rightarrow> string" where
  "strip s = rev (dropWhile is_space (rev (dropWhile is_space s)))"

definition getLivySQL :: "string \<Rightarrow> string" where
  "getLivySQL sql = strip (re_sub DOTALL sql)"

section \<open>The process, the service and the identity provider\<close>

text \<open>
  The model follows \<^verbatim>\<open>livysession.py\<close> function by function. A function that performs
  I/O or changes an object takes the state of the process and returns the new one; a
  function that can raise returns a sum, \<open>Inl\<close> the exception; a function with a loop
  that may run for ever returns an option, \<open>None\<close> when it does not return. Calls of
  \<^verbatim>\<open>logger\<close> and \<^verbatim>\<open>print\<close> are left out: they change nothing the code reads, and
  where formatting a message can raise, the model raises at that place.

  Modelled from the spec: the class \<^verbatim>\<open>SparkCredentials\<close> is declared in
  \<^verbatim>\<open>fabric_spark_credentials.py\<close>, which is not among the sources. Its fields are the ones
  this file reads: the endpoint URL, tenant, client and secret or the CLI-auth flag, the
  session name, the session configuration parameters, the keep-session flag and the
  optional shortcut path with the workspace and lakehouse ids.
\<close>

record creds =
  authentication :: "string option"
  tenant_id :: "string option"
  client_id :: "string option"
  client_secret :: "string option"
  lakehouse_endpoint :: string
  livy_session_name :: "string option"
  livy_session_parameters :: json
  keep_session :: bool
  shortcuts_json_path :: "string option"
  workspaceid :: string
  lakehouseid :: string

text \<open>\<^verbatim>\<open>AccessToken\<close> of \<^verbatim>\<open>azure.core.credentials\<close>: the bearer string and its expiry.\<close>

record access_token =
  token :: string
  expires_on :: int

datatype auth = Cli | ServicePrincipal string string string

datatype http_method = GET | POST | DELETE

record request =
  meth :: http_method
  url :: string
  data :: "json option"
  hdrs :: "(string \<times> string) list"

text \<open>
  What a call of \<^verbatim>\<open>requests\<close> does: it raises, or it returns a response with a status
  code and a body; the body is \<open>None\<close> when it is not JSON, so that \<^verbatim>\<open>.json()\<close> raises.
\<close>

datatype http_result = Raises exn | Response nat "json option"

text \<open>The observable actions of the process, in order: requests sent and sleeps.\<close>

datatype event =
    Http http_method string "json option"
  | Sleep nat
  | Shortcuts string

text \<open>
  Everything outside the process is a parameter. \<open>server env k r\<close> is what the \<open>k\<close>-th HTTP
  call of the process gets when it sends \<open>r\<close>; \<open>get_token env a k\<close> is the outcome of the
  \<open>k\<close>-th request for a token, \<open>clock env k\<close> the \<open>k\<close>-th reading of \<^verbatim>\<open>time.time()\<close>, and
  \<open>utcoffset env t\<close> the offset of local time at the instant \<open>t\<close>. \<open>py_str\<close> and \<open>py_repr\<close>
  are Python's \<^verbatim>\<open>str\<close> and \<^verbatim>\<open>repr\<close> on decoded values, \<open>dedent\<close> is
  \<^verbatim>\<open>textwrap.dedent\<close>, \<open>format\<close> is the \<^verbatim>\<open>%\<close> operator on a string and a tuple.

  Modelled from the spec: \<^verbatim>\<open>ShortcutClient\<close> lives in \<^verbatim>\<open>shortcuts.py\<close>, which is not among
  the sources; it is invoked once per new session with the token, the workspace id, the
  lakehouse id and the path, and \<open>create_shortcuts\<close> is whether that call raises.
\<close>

record env =
  server :: "nat \<Rightarrow> request \<Rightarrow> http_result"
  get_token :: "auth \<Rightarrow> nat \<Rightarrow> exn + access_token"
  clock :: "nat \<Rightarrow> real"
  utcoffset :: "int \<Rightarrow> int"
  py_str :: "json \<Rightarrow> string"
  py_repr :: "json \<Rightarrow> string"
  dedent :: "string \<Rightarrow> string"
  format :: "string \<Rightarrow> pyval list \<Rightarrow> exn + string"
  create_shortcuts :: "string \<Rightarrow> string \<Rightarrow> string \<Rightarrow> string \<Rightarrow> nat \<Rightarrow> exn option"

text \<open>The fields of a \<^verbatim>\<open>LivySession\<close> object.\<close>

record livy_session =
  credential :: creds
  connect_url :: string
  session_id :: "string option"
  is_new_session_required :: bool

text \<open>
  The state of the process: the log of its actions, the counters that index the
  environment, the module-level \<^verbatim>\<open>accessToken\<close>, the \<^verbatim>\<open>LivySession\<close> objects by address
  (a cursor and the session manager may hold the same object), and the class attribute
  \<^verbatim>\<open>LivySessionManager.livy_global_session\<close>.
\<close>

record world =
  trace :: "event list"
  calls :: nat
  accessToken :: "access_token option"
  fetches :: nat
  ticks :: nat
  heap :: "nat \<Rightarrow> livy_session"
  allocated :: nat
  livy_global_session :: "nat option"

definition DEFAULT_POLL_WAIT :: nat where
  "DEFAULT_POLL_WAIT = 45"

definition DEFAULT_POLL_STATEMENT_WAIT :: nat where
  "DEFAULT_POLL_STATEMENT_WAIT = 5"

definition DEFAULT_EXECUTE_RETRIES_TIME :: nat where
  "DEFAULT_EXECUTE_RETRIES_TIME = 5"

definition DEFAULT_EXECUTE_RETRIES_WAIT :: nat where
  "DEFAULT_EXECUTE_RETRIES_WAIT = 10"

definition EXECUTE_RETRIES_PATTERNS :: "string list" where
  "EXECUTE_RETRIES_PATTERNS = [''Request failed: HTTP/1.1 403 Forbidden ClientRequestId'']"

definition sleep :: "nat \<Rightarrow> world \<Rightarrow> world" where
  "sleep n w = w\<lparr>trace := trace w @ [Sleep n]\<rparr>"

text \<open>
  \<^verbatim>\<open>while True:\<close> with a body that either leaves the loop with a result (\<open>Inl\<close>: a
  \<^verbatim>\<open>break\<close>, \<^verbatim>\<open>return\<close> or \<^verbatim>\<open>raise\<close>) or goes round again with a new state (\<open>Inr\<close>). The
  result is \<open>None\<close> when the loop never ends, or when its body does not return.
\<close>

partial_function (option) while_True :: "('s \<Rightarrow> ('r + 's) option) \<Rightarrow> 's \<Rightarrow> 'r option" where
  "while_True body s =
     (case body s of
        None \<Rightarrow> None
      | Some (Inl r) \<Rightarrow> Some r
      | Some (Inr s') \<Rightarrow> while_True body s')"

section \<open>The token cache\<close>

text \<open>\<^verbatim>\<open>int(x)\<close> on a float truncates toward zero.\<close>

definition py_int :: "real \<Rightarrow> int" where
  "py_int x = (if 0 \<le> x then \<lfloor>x\<rfloor> else \<lceil>x\<rceil>)"

text \<open>
  \<^verbatim>\<open>dt.datetime.fromtimestamp(t)\<close> is the naive local date and time of the instant \<open>t\<close>,
  here in seconds: the instant plus the local offset. Timestamps are taken to lie in the
  range \<^verbatim>\<open>datetime\<close> represents.
\<close>

definition fromtimestamp :: "env \<Rightarrow> int \<Rightarrow> int" where
  "fromtimestamp env t = t + utcoffset env t"

text \<open>
  \<^verbatim>\<open>time.mktime(time.localtime(time.time()))\<close>: \<^verbatim>\<open>localtime\<close> drops the fraction of the
  second and \<^verbatim>\<open>mktime\<close> is its inverse on whole seconds.
\<close>

definition is_token_refresh_necessary :: "env \<Rightarrow> int \<Rightarrow> world \<Rightarrow> bool \<times> world" where
  "is_token_refresh_necessary env unixTimestamp w =
     (let dt_object = fromtimestamp env unixTimestamp;
          local_time = \<lfloor>clock env (ticks w)\<rfloor>;
          difference = dt_object - fromtimestamp env local_time
      in (py_int (real_of_int difference / 60) < 5, w\<lparr>ticks := ticks w + 1\<rparr>))"

definition fetch_token :: "env \<Rightarrow> auth \<Rightarrow> world \<Rightarrow> (exn + access_token) \<times> world" where
  "fetch_token env a w = (get_token env a (fetches w), w\<lparr>fetches := fetches w + 1\<rparr>)"

definition get_cli_access_token :: "env \<Rightarrow> creds \<Rightarrow> world \<Rightarrow> (exn + access_token) \<times> world" where
  "get_cli_access_token env credentials w = fetch_token env Cli w"

text \<open>\<^verbatim>\<open>str(x)\<close> of an optional string.\<close>

definition str_opt :: "string option \<Rightarrow> string" where
  "str_opt x = (case x of None \<Rightarrow> ''None'' | Some s \<Rightarrow> s)"

definition get_sp_access_token :: "env \<Rightarrow> creds \<Rightarrow> world \<Rightarrow> (exn + access_token) \<times> world" where
  "get_sp_access_token env credentials w =
     fetch_token env
       (ServicePrincipal (str_opt (tenant_id credentials)) (str_opt (client_id credentials))
          (str_opt (client_secret credentials))) w"

text \<open>\<^verbatim>\<open>str.lower\<close> on code points below 256.\<close>

definition lower_char :: "char \<Rightarrow> char" where
  "lower_char c =
     (let n = (of_char c :: nat)
      in if (65 \<le> n \<and> n \<le> 90) \<or> (192 \<le> n \<and> n \<le> 222 \<and> n \<noteq> 215) then char_of (n + 32) else c)"

definition lower :: "string \<Rightarrow> string" where
  "lower s = map lower_char s"

definition headers_of :: "access_token \<Rightarrow> (string \<times> string) list" where
  "headers_of t =
     [(''Content-Type'', ''application/json''), (''Authorization'', ''Bearer '' @ token t)]"

text \<open>
  The branch of \<^verbatim>\<open>get_headers\<close> that fetches: with the CLI credential when
  \<^verbatim>\<open>credentials.authentication\<close> is a non-empty string that lower-cases to \<^verbatim>\<open>cli\<close>, with
  the client secret otherwise. A failure of the fetch propagates and leaves the cache as
  it was.
\<close>

definition refresh_token :: "env \<Rightarrow> creds \<Rightarrow> world \<Rightarrow> (exn + (string \<times> string) list) \<times> world" where
  "refresh_token env credentials w =
     (case (if (case authentication credentials of
                  None \<Rightarrow> False
                | Some a \<Rightarrow> a \<noteq> [] \<and> lower a = ''cli'')
            then get_cli_access_token env credentials w
            else get_sp_access_token env credentials w) of
        (Inl e, w1) \<Rightarrow> (Inl e, w1)
      | (Inr t, w1) \<Rightarrow> (Inr (headers_of t), w1\<lparr>accessToken := Some t\<rparr>))"

definition get_headers :: "env \<Rightarrow> creds \<Rightarrow> bool \<Rightarrow> world \<Rightarrow> (exn + (string \<times> string) list) \<times> world"
  where
  "get_headers env credentials tokenPrint w =
     (case accessToken w of
        None \<Rightarrow> refresh_token env credentials w
      | Some t \<Rightarrow>
          (case is_token_refresh_necessary env (expires_on t) w of
             (True, w1) \<Rightarrow> refresh_token env credentials w1
           | (False, w1) \<Rightarrow> (Inr (headers_of t), w1)))"

section \<open>HTTP calls\<close>

text \<open>
  A call \<^verbatim>\<open>requests.post(url, data=..., headers=get_headers(credential, flag))\<close>, and
  likewise \<^verbatim>\<open>get\<close> and \<^verbatim>\<open>delete\<close>: the headers are computed first, which may refresh the
  token or raise; then the request is sent and logged, and the service answers.
\<close>

definition http :: "env \<Rightarrow> creds \<Rightarrow> bool \<Rightarrow> http_method \<Rightarrow> string \<Rightarrow> json option \<Rightarrow> world
    \<Rightarrow> http_result \<times> world" where
  "http env cr tokenPrint m u d w =
     (case get_headers env cr tokenPrint w of
        (Inl e, w1) \<Rightarrow> (Raises e, w1)
      | (Inr h, w1) \<Rightarrow>
          (server env (calls w1) \<lparr>meth = m, url = u, data = d, hdrs = h\<rparr>,
           w1\<lparr>calls := calls w1 + 1, trace := trace w1 @ [Http m u d]\<rparr>))"

text \<open>\<^verbatim>\<open>response.json()\<close> on the outcome of a call.\<close>

fun json_of :: "http_result \<Rightarrow> exn + json" where
  "json_of (Raises e) = Inl e"
| "json_of (Response st None) = Inl JSONDecodeError"
| "json_of (Response st (Some j)) = Inr j"

text \<open>
  \<^verbatim>\<open>response.raise_for_status()\<close> raises \<open>HTTPError\<close> for the client and server error
  codes.
\<close>

definition raise_for_status :: "nat \<Rightarrow> exn option" where
  "raise_for_status st = (if 400 \<le> st \<and> st < 600 then Some HTTPError else None)"

text \<open>
  \<^verbatim>\<open>self.connect_url + "/sessions/" + self.session_id\<close>: adding \<open>None\<close> to a string is a
  \<open>TypeError\<close>.
\<close>

definition session_url :: "string \<Rightarrow> string option \<Rightarrow> exn + string" where
  "session_url base sid =
     (case sid of None \<Rightarrow> Inl TypeError | Some i \<Rightarrow> Inr (base @ ''/sessions/'' @ i))"

section \<open>LivySession\<close>

definition set_session_id :: "nat \<Rightarrow> string option \<Rightarrow> world \<Rightarrow> world" where
  "set_session_id self v w = w\<lparr>heap := (heap w)(self := (heap w self)\<lparr>session_id := v\<rparr>)\<rparr>"

definition set_is_new_session_required :: "nat \<Rightarrow> bool \<Rightarrow> world \<Rightarrow> world" where
  "set_is_new_session_required self v w =
     w\<lparr>heap := (heap w)(self := (heap w self)\<lparr>is_new_session_required := v\<rparr>)\<rparr>"

text \<open>
  \<^verbatim>\<open>requests.get(self.connect_url + "/sessions/" + self.session_id, headers=...).json()\<close>
\<close>

definition get_session :: "env \<Rightarrow> nat \<Rightarrow> world \<Rightarrow> (exn + json) \<times> world" where
  "get_session env self w =
     (case session_url (connect_url (heap w self)) (session_id (heap w self)) of
        Inl e \<Rightarrow> (Inl e, w)
      | Inr u \<Rightarrow>
          (case http env (credential (heap w self)) False GET u None w of
             (r, w1) \<Rightarrow> (json_of r, w1)))"

text \<open>\<^verbatim>\<open>res["livyInfo"]["currentState"]\<close>\<close>

definition currentState :: "json \<Rightarrow> exn + json" where
  "currentState res =
     (case getitem res ''livyInfo'' of Inl e \<Rightarrow> Inl e | Inr li \<Rightarrow> getitem li ''currentState'')"

text \<open>
  The body of the loop of \<^verbatim>\<open>create_session\<close> that waits for the started state: poll the
  session; while it is \<^verbatim>\<open>starting\<close> or \<^verbatim>\<open>not_started\<close> sleep and go round; \<^verbatim>\<open>idle\<close> ends
  the loop and clears the flag; any other state but \<^verbatim>\<open>dead\<close> goes round at once. For
  \<^verbatim>\<open>dead\<close> the code evaluates \<^verbatim>\<open>dbt.exceptions.FailedToConnectException\<close>; the versions
  of dbt-core that provide the other imports of the module (\<^verbatim>\<open>dbt.adapters.events.logging\<close>,
  \<^verbatim>\<open>dbt_common\<close>) have no such name in \<^verbatim>\<open>dbt.exceptions\<close>, so the attribute lookup
  raises \<open>AttributeError\<close> before any exception object is built.
\<close>

definition wait_for_started :: "env \<Rightarrow> nat \<Rightarrow> world \<Rightarrow> (((exn + unit) \<times> world) + world) option"
  where
  "wait_for_started env self w =
     (case get_session env self w of
        (Inl e, w1) \<Rightarrow> Some (Inl (Inl e, w1))
      | (Inr res, w1) \<Rightarrow>
          (case getitem res ''state'' of
             Inl e \<Rightarrow> Some (Inl (Inl e, w1))
           | Inr st \<Rightarrow>
               if st = JStr ''starting'' \<or> st = JStr ''not_started''
               then Some (Inr (sleep DEFAULT_POLL_WAIT w1))
               else (case currentState res of
                       Inl e \<Rightarrow> Some (Inl (Inl e, w1))
                     | Inr cs \<Rightarrow>
                         if cs = JStr ''idle''
                         then Some (Inl (Inr (), set_is_new_session_required self False w1))
                         else if cs = JStr ''dead''
                         then Some (Inl (Inl AttributeError, w1))
                         else Some (Inr w1))))"

text \<open>
  \<^verbatim>\<open>create_session\<close>. The \<^verbatim>\<open>try\<close> block posts the session and calls
  \<^verbatim>\<open>raise_for_status\<close>; its handlers catch every \<^verbatim>\<open>RequestException\<close> and only print.
  \<open>response\<close> is bound as soon as \<^verbatim>\<open>requests.post\<close> returns, before
  \<^verbatim>\<open>raise_for_status\<close> runs, so it is \<open>None\<close> afterwards only when the call itself raised.
\<close>

definition post_session :: "env \<Rightarrow> nat \<Rightarrow> json \<Rightarrow> world \<Rightarrow> (exn + (nat \<times> json option) option) \<times> world"
  where
  "post_session env self payload w =
     (case http env (credential (heap w self)) True POST
             (connect_url (heap w self) @ ''/sessions'') (Some payload) w of
        (Raises e, w1) \<Rightarrow> (if is_RequestException e then Inr None else Inl e, w1)
      | (Response st b, w1) \<Rightarrow>
          (case raise_for_status st of
             None \<Rightarrow> (Inr (Some (st, b)), w1)
           | Some e \<Rightarrow> (if is_RequestException e then Inr (Some (st, b)) else Inl e, w1)))"

definition create_session :: "env \<Rightarrow> nat \<Rightarrow> json \<Rightarrow> world \<Rightarrow> ((exn + string option) \<times> world) option"
  where
  "create_session env self payload w =
     (case post_session env self payload w of
        (Inl e, w1) \<Rightarrow> Some (Inl e, w1)
      | (Inr None, w1) \<Rightarrow> Some (Inl (Exception ''Invalid response from livy server''), w1)
      | (Inr (Some (st, b)), w1) \<Rightarrow>
          (case b of
             None \<Rightarrow>
               Some (Inl (Exception ''Json decode error to get session_id''),
                     set_session_id self None w1)
           | Some j \<Rightarrow>
               (case getitem j ''id'' of
                  Inl e \<Rightarrow> Some (Inl e, set_session_id self None w1)
                | Inr i \<Rightarrow>
                    (case while_True (wait_for_started env self)
                            (set_session_id self (Some (py_str env i)) w1) of
                       None \<Rightarrow> None
                     | Some (Inl e, w2) \<Rightarrow> Some (Inl e, w2)
                     | Some (Inr u, w2) \<Rightarrow> Some (Inr (session_id (heap w2 self)), w2)))))"

text \<open>
  \<^verbatim>\<open>delete_session\<close>: everything happens inside \<^verbatim>\<open>try ... except Exception\<close>, so nothing
  is raised. (For a status other than 200 the code calls \<^verbatim>\<open>raise_for_status\<close> on the
  module \<^verbatim>\<open>urllib.response\<close>, an \<open>AttributeError\<close> that the handler logs as well.)
\<close>

definition delete_session :: "env \<Rightarrow> nat \<Rightarrow> world \<Rightarrow> world" where
  "delete_session env self w =
     (case session_url (connect_url (heap w self)) (session_id (heap w self)) of
        Inl e \<Rightarrow> w
      | Inr u \<Rightarrow> snd (http env (credential (heap w self)) False DELETE u None w))"

definition invalid_states :: "json list" where
  "invalid_states = [JStr ''dead'', JStr ''shutting_down'', JStr ''killed'']"

definition is_valid_session :: "env \<Rightarrow> nat \<Rightarrow> world \<Rightarrow> (exn + bool) \<times> world" where
  "is_valid_session env self w =
     (case get_session env self w of
        (Inl e, w1) \<Rightarrow> (Inl e, w1)
      | (Inr res, w1) \<Rightarrow>
          (case currentState res of
             Inl e \<Rightarrow> (Inl e, w1)
           | Inr cs \<Rightarrow> (Inr (cs \<notin> set invalid_states), w1)))"

text \<open>
  The inner loop of \<^verbatim>\<open>get_exist_session\<close> for one listed session: poll it by its id;
  \<^verbatim>\<open>starting\<close> or \<^verbatim>\<open>not_started\<close> sleeps and goes round; \<^verbatim>\<open>idle\<close> stores the id in
  \<^verbatim>\<open>self.session_id\<close> and leaves this loop; any other state goes round at once.
\<close>

definition wait_for_idle :: "env \<Rightarrow> nat \<Rightarrow> json \<Rightarrow> world \<Rightarrow> (((exn + unit) \<times> world) + world) option"
  where
  "wait_for_idle env self session w =
     (case getitem session ''id'' of
        Inl e \<Rightarrow> Some (Inl (Inl e, w))
      | Inr (JStr i) \<Rightarrow>
          (case http env (credential (heap w self)) False GET
                  (connect_url (heap w self) @ ''/sessions/'' @ i) None w of
             (r, w1) \<Rightarrow>
               (case json_of r of
                  Inl e \<Rightarrow> Some (Inl (Inl e, w1))
                | Inr res \<Rightarrow>
                    (case getitem res ''state'' of
                       Inl e \<Rightarrow> Some (Inl (Inl e, w1))
                     | Inr st \<Rightarrow>
                         if st = JStr ''starting'' \<or> st = JStr ''not_started''
                         then Some (Inr (sleep DEFAULT_POLL_WAIT w1))
                         else (case currentState res of
                                 Inl e \<Rightarrow> Some (Inl (Inl e, w1))
                               | Inr cs \<Rightarrow>
                                   if cs = JStr ''idle''
                                   then Some (Inl (Inr (), set_session_id self (Some i) w1))
                                   else Some (Inr w1)))))
      | Inr _ \<Rightarrow> Some (Inl (Inl TypeError, w)))"

text \<open>
  The \<^verbatim>\<open>for session in res["items"]\<close> loop. A session of another name, or one listed as
  dead, shutting down or killed, is skipped. For any other session of the configured
  name the inner loop runs; its \<^verbatim>\<open>break\<close> leaves the inner loop only, and the \<^verbatim>\<open>for\<close> loop
  goes on with the next listed session.
\<close>

fun scan_sessions :: "env \<Rightarrow> nat \<Rightarrow> string \<Rightarrow> json list \<Rightarrow> world \<Rightarrow> ((exn + unit) \<times> world) option"
  where
  "scan_sessions env self name [] w = Some (Inr (), w)"
| "scan_sessions env self name (session # rest) w =
     (case getitem session ''name'' of
        Inl e \<Rightarrow> Some (Inl e, w)
      | Inr n \<Rightarrow>
          if n = JStr name then
            (case getitem session ''livyState'' of
               Inl e \<Rightarrow> Some (Inl e, w)
             | Inr ls \<Rightarrow>
                 if ls \<in> set invalid_states then scan_sessions env self name rest w
                 else (case while_True (wait_for_idle env self session) w of
                         None \<Rightarrow> None
                       | Some (Inl e, w1) \<Rightarrow> Some (Inl e, w1)
                       | Some (Inr u, w1) \<Rightarrow> scan_sessions env self name rest w1))
          else scan_sessions env self name rest w)"

definition get_exist_session :: "env \<Rightarrow> nat \<Rightarrow> world \<Rightarrow> ((exn + string option) \<times> world) option"
  where
  "get_exist_session env self w =
     (case livy_session_name (credential (heap w self)) of
        None \<Rightarrow> Some (Inr None, w)
      | Some name \<Rightarrow>
          (case http env (credential (heap w self)) True GET
                  (connect_url (heap w self) @ ''/sessions'') None w of
             (r, w1) \<Rightarrow>
               (case json_of r of
                  Inl e \<Rightarrow> Some (Inl e, w1)
                | Inr res \<Rightarrow>
                    (case getitem res ''items'' of
                       Inl e \<Rightarrow> Some (Inl e, w1)
                     | Inr items \<Rightarrow>
                         (case py_iter items of
                            Inl e \<Rightarrow> Some (Inl e, w1)
                          | Inr sessions \<Rightarrow>
                              (case scan_sessions env self name sessions w1 of
                                 None \<Rightarrow> None
                               | Some (Inl e, w2) \<Rightarrow> Some (Inl e, w2)
                               | Some (Inr u, w2) \<Rightarrow>
                                   Some (Inr (session_id (heap w2 self)), w2)))))))"

definition get_exist_session_or_create ::
    "env \<Rightarrow> nat \<Rightarrow> json \<Rightarrow> world \<Rightarrow> ((exn + string option) \<times> world) option" where
  "get_exist_session_or_create env self payload w =
     (case get_exist_session env self w of
        None \<Rightarrow> None
      | Some (Inl e, w1) \<Rightarrow> Some (Inl e, w1)
      | Some (Inr None, w1) \<Rightarrow> create_session env self payload w1
      | Some (Inr (Some i), w1) \<Rightarrow> Some (Inr (Some i), w1))"

definition is_keeping_session :: "nat \<Rightarrow> world \<Rightarrow> bool" where
  "is_keeping_session self w = keep_session (credential (heap w self))"

section \<open>LivyCursor, LivyConnection and LivySessionManager\<close>

text \<open>
  The fields of a \<^verbatim>\<open>LivyCursor\<close>: the buffered rows and the schema (\<open>None\<close> until a
  statement has succeeded), its own copy of the session id, and the address of the
  \<^verbatim>\<open>LivySession\<close> object it was built with.
\<close>

record cursor =
  rows :: "json option"
  schema :: "json option"
  cursor_credential :: creds
  cursor_connect_url :: string
  cursor_session_id :: "string option"
  livy_session :: nat

definition LivyCursor :: "creds \<Rightarrow> nat \<Rightarrow> world \<Rightarrow> cursor" where
  "LivyCursor cr ls w =
     \<lparr>rows = None, schema = None, cursor_credential = cr,
      cursor_connect_url = lakehouse_endpoint cr,
      cursor_session_id = session_id (heap w ls), livy_session = ls\<rparr>"

record livy_connection =
  connection_credential :: creds
  connection_connect_url :: string
  connection_session_id :: "string option"
  connection_parameters :: json
  connection_cursor :: cursor

definition LivyConnection :: "creds \<Rightarrow> nat \<Rightarrow> world \<Rightarrow> livy_connection" where
  "LivyConnection cr ls w =
     \<lparr>connection_credential = cr, connection_connect_url = lakehouse_endpoint cr,
      connection_session_id = session_id (heap w ls),
      connection_parameters = livy_session_parameters cr,
      connection_cursor = LivyCursor cr ls w\<rparr>"

text \<open>\<^verbatim>\<open>LivySession(credentials)\<close>: a new object at the next free address.\<close>

definition LivySession :: "creds \<Rightarrow> world \<Rightarrow> nat \<times> world" where
  "LivySession cr w =
     (allocated w,
      w\<lparr>heap := (heap w)(allocated w :=
             \<lparr>credential = cr, connect_url = lakehouse_endpoint cr, session_id = None,
              is_new_session_required = True\<rparr>),
        allocated := allocated w + 1\<rparr>)"

text \<open>
  \<^verbatim>\<open>ShortcutClient(accessToken.token, workspaceid, lakehouseid).create_shortcuts(path)\<close>,
  run when \<^verbatim>\<open>credentials.shortcuts_json_path\<close> is a non-empty string. Reading \<^verbatim>\<open>.token\<close> of
  a missing token is an \<open>AttributeError\<close>.
\<close>

definition run_shortcuts :: "env \<Rightarrow> creds \<Rightarrow> world \<Rightarrow> exn option \<times> world" where
  "run_shortcuts env cr w =
     (case shortcuts_json_path cr of
        None \<Rightarrow> (None, w)
      | Some path \<Rightarrow>
          if path = [] then (None, w)
          else (case accessToken w of
                  None \<Rightarrow> (Some AttributeError, w)
                | Some t \<Rightarrow>
                    (create_shortcuts env (token t) (workspaceid cr) (lakehouseid cr) path (calls w),
                     w\<lparr>trace := trace w @ [Shortcuts path]\<rparr>)))"

definition session_payload :: "creds \<Rightarrow> json" where
  "session_payload cr =
     JObj [(''kind'', JStr ''sql''), (''conf'', livy_session_parameters cr),
           (''name'', (case livy_session_name cr of None \<Rightarrow> JNull | Some n \<Rightarrow> JStr n))]"

text \<open>
  \<^verbatim>\<open>LivySessionManager.connect\<close>. With no global session yet, a new object is stored in
  the class attribute first, then a session is found or created; an invalid session is
  deleted and replaced; a session flagged for replacement is replaced; otherwise the
  session is reused.
\<close>

definition connect :: "env \<Rightarrow> creds \<Rightarrow> world \<Rightarrow> ((exn + livy_connection) \<times> world) option" where
  "connect env cr w =
     (case livy_global_session w of
        None \<Rightarrow>
          (case LivySession cr w of
             (g, w0) \<Rightarrow>
               (case get_exist_session_or_create env g (session_payload cr)
                       (w0\<lparr>livy_global_session := Some g\<rparr>) of
                  None \<Rightarrow> None
                | Some (Inl e, w1) \<Rightarrow> Some (Inl e, w1)
                | Some (Inr i, w1) \<Rightarrow>
                    (case run_shortcuts env cr (set_is_new_session_required g False w1) of
                       (Some e, w2) \<Rightarrow> Some (Inl e, w2)
                     | (None, w2) \<Rightarrow> Some (Inr (LivyConnection cr g w2), w2))))
      | Some g \<Rightarrow>
          (case is_valid_session env g w of
             (Inl e, w1) \<Rightarrow> Some (Inl e, w1)
           | (Inr valid, w1) \<Rightarrow>
               if \<not> valid then
                 (case create_session env g (session_payload cr) (delete_session env g w1) of
                    None \<Rightarrow> None
                  | Some (Inl e, w2) \<Rightarrow> Some (Inl e, w2)
                  | Some (Inr i, w2) \<Rightarrow>
                      Some (Inr (LivyConnection cr g (set_is_new_session_required g False w2)),
                            set_is_new_session_required g False w2))
               else if is_new_session_required (heap w1 g) then
                 (case create_session env g (session_payload cr) w1 of
                    None \<Rightarrow> None
                  | Some (Inl e, w2) \<Rightarrow> Some (Inl e, w2)
                  | Some (Inr i, w2) \<Rightarrow>
                      Some (Inr (LivyConnection cr g (set_is_new_session_required g False w2)),
                            set_is_new_session_required g False w2))
               else Some (Inr (LivyConnection cr g w1), w1)))"

text \<open>
  \<^verbatim>\<open>LivySessionManager.disconnect\<close>; reading a method of a missing global session is an
  \<open>AttributeError\<close>.
\<close>

definition disconnect :: "env \<Rightarrow> world \<Rightarrow> (exn + unit) \<times> world" where
  "disconnect env w =
     (case livy_global_session w of
        None \<Rightarrow> (Inl AttributeError, w)
      | Some g \<Rightarrow>
          (case is_valid_session env g w of
             (Inl e, w1) \<Rightarrow> (Inl e, w1)
           | (Inr valid, w1) \<Rightarrow>
               if valid \<and> \<not> is_keeping_session g w1
               then (Inr (), set_is_new_session_required g True (delete_session env g w1))
               else (Inr (), w1)))"

section \<open>Submitting a statement and polling for its result\<close>

definition check_retry_condition_when_submit_code :: "json \<Rightarrow> exn + bool" where
  "check_retry_condition_when_submit_code res =
     (case getitem res ''state'' of Inl e \<Rightarrow> Inl e | Inr st \<Rightarrow> Inr (st = JStr ''error''))"

text \<open>\<^verbatim>\<open>res["output"][key]\<close>\<close>

definition output_field :: "json \<Rightarrow> string \<Rightarrow> exn + json" where
  "output_field res k =
     (case getitem res ''output'' of Inl e \<Rightarrow> Inl e | Inr out \<Rightarrow> getitem out k)"

text \<open>The \<^verbatim>\<open>for pattern in EXECUTE_RETRIES_PATTERNS\<close> loop, returning at the first match.\<close>

fun any_pattern_in :: "string list \<Rightarrow> json \<Rightarrow> exn + bool" where
  "any_pattern_in [] res = Inr False"
| "any_pattern_in (pattern # ps) res =
     (case output_field res ''evalue'' of
        Inl e \<Rightarrow> Inl e
      | Inr ev \<Rightarrow>
          (case py_in pattern ev of
             Inl e \<Rightarrow> Inl e
           | Inr True \<Rightarrow> Inr True
           | Inr False \<Rightarrow> any_pattern_in ps res))"

definition check_retry_condition_when_execute :: "json \<Rightarrow> exn + bool" where
  "check_retry_condition_when_execute res =
     (case output_field res ''status'' of
        Inl e \<Rightarrow> Inl e
      | Inr st \<Rightarrow> if st = JStr ''error'' then any_pattern_in EXECUTE_RETRIES_PATTERNS res
                  else Inr False)"

text \<open>
  \<^verbatim>\<open>self.connect_url + "/sessions/" + self.session_id + "/statements"\<close>
\<close>

definition statements_url :: "cursor \<Rightarrow> exn + string" where
  "statements_url c =
     (case session_url (cursor_connect_url c) (cursor_session_id c) of
        Inl e \<Rightarrow> Inl e
      | Inr u \<Rightarrow> Inr (u @ ''/statements''))"

definition statement_payload :: "string \<Rightarrow> string \<Rightarrow> json" where
  "statement_payload code language = JObj [(''code'', JStr code), (''kind'', JStr language)]"

text \<open>
  The body of the \<^verbatim>\<open>while True\<close> loop of \<^verbatim>\<open>_submitLivyCode\<close>; the state of the loop is
  \<open>retries_time\<close> and the world. The loop ends with the response (status code and body),
  or with an exception.
\<close>

definition submit_once :: "env \<Rightarrow> cursor \<Rightarrow> json \<Rightarrow> nat \<times> world
    \<Rightarrow> (((exn + nat \<times> json option) \<times> world) + nat \<times> world) option" where
  "submit_once env c payload s =
     (case s of
        (retries_time, w) \<Rightarrow>
          (case statements_url c of
             Inl e \<Rightarrow> Some (Inl (Inl e, w))
           | Inr u \<Rightarrow>
               (case http env (cursor_credential c) False POST u (Some payload) w of
                  (Raises e, w1) \<Rightarrow> Some (Inl (Inl e, w1))
                | (Response st b, w1) \<Rightarrow>
                    (case json_of (Response st b) of
                       Inl e \<Rightarrow> Some (Inl (Inl e, w1))
                     | Inr j \<Rightarrow>
                         (case check_retry_condition_when_submit_code j of
                            Inl e \<Rightarrow> Some (Inl (Inl e, w1))
                          | Inr True \<Rightarrow>
                              if retries_time < DEFAULT_EXECUTE_RETRIES_TIME
                              then Some (Inr (retries_time + 1,
                                     sleep (retries_time * DEFAULT_EXECUTE_RETRIES_WAIT
                                            + DEFAULT_EXECUTE_RETRIES_WAIT) w1))
                              else Some (Inl (Inr (st, b), w1))
                          | Inr False \<Rightarrow> Some (Inl (Inr (st, b), w1)))))))"

text \<open>
  \<^verbatim>\<open>_submitLivyCode\<close>: reconnect first when the bound session is flagged, and take the
  session id of the bound session object; then run the submit loop from
  \<open>retries_time = 0\<close>. (The debug message before the loop formats the statements URL, so
  a missing session id raises there already.)
\<close>

definition submitLivyCode :: "env \<Rightarrow> string \<Rightarrow> string \<Rightarrow> cursor \<Rightarrow> world
    \<Rightarrow> ((exn + nat \<times> json option) \<times> cursor \<times> world) option" where
  "submitLivyCode env code language c w =
     (case (if is_new_session_required (heap w (livy_session c))
            then (case connect env (cursor_credential c) w of
                    None \<Rightarrow> None
                  | Some (Inl e, w1) \<Rightarrow> Some (Inl e, c, w1)
                  | Some (Inr conn, w1) \<Rightarrow>
                      Some (Inr (),
                            c\<lparr>cursor_session_id := session_id (heap w1 (livy_session c))\<rparr>, w1))
            else Some (Inr (), c, w)) of
        None \<Rightarrow> None
      | Some (Inl e, c1, w1) \<Rightarrow> Some (Inl e, c1, w1)
      | Some (Inr u, c1, w1) \<Rightarrow>
          (case statements_url c1 of
             Inl e \<Rightarrow> Some (Inl e, c1, w1)
           | Inr url1 \<Rightarrow>
               (case while_True (submit_once env c1 (statement_payload code language)) (0, w1) of
                  None \<Rightarrow> None
                | Some (r, w2) \<Rightarrow> Some (r, c1, w2))))"

definition getLivyPyspark :: "env \<Rightarrow> string \<Rightarrow> string" where
  "getLivyPyspark env code = dedent env code"

text \<open>
  The body of the polling loop of \<^verbatim>\<open>_getLivyResult\<close>: fetch the statement by its id and
  return it once its state is \<^verbatim>\<open>available\<close>; otherwise sleep and go round.
\<close>

definition poll_statement :: "env \<Rightarrow> cursor \<Rightarrow> json \<Rightarrow> world \<Rightarrow> (((exn + json) \<times> world) + world) option"
  where
  "poll_statement env c ident w =
     (case statements_url c of
        Inl e \<Rightarrow> Some (Inl (Inl e, w))
      | Inr u \<Rightarrow>
          (case http env (cursor_credential c) False GET (u @ ''/'' @ py_repr env ident) None w of
             (r, w1) \<Rightarrow>
               (case json_of r of
                  Inl e \<Rightarrow> Some (Inl (Inl e, w1))
                | Inr res \<Rightarrow>
                    (case getitem res ''state'' of
                       Inl e \<Rightarrow> Some (Inl (Inl e, w1))
                     | Inr st \<Rightarrow>
                         if st = JStr ''available'' then Some (Inl (Inr res, w1))
                         else Some (Inr (sleep DEFAULT_POLL_STATEMENT_WAIT w1))))))"

text \<open>
  \<^verbatim>\<open>_getLivyResult\<close>: decode the submit response, read its \<^verbatim>\<open>id\<close> (for the log message
  and the URL), then poll.
\<close>

definition getLivyResult :: "env \<Rightarrow> cursor \<Rightarrow> nat \<times> json option \<Rightarrow> world \<Rightarrow> ((exn + json) \<times> world) option"
  where
  "getLivyResult env c res_obj w =
     (case json_of (Response (fst res_obj) (snd res_obj)) of
        Inl e \<Rightarrow> Some (Inl e, w)
      | Inr json_res \<Rightarrow>
          (case getitem json_res ''id'' of
             Inl e \<Rightarrow> Some (Inl e, w)
           | Inr ident \<Rightarrow> while_True (poll_statement env c ident) w))"

section \<open>Executing a statement and reading its result\<close>

text \<open>
  The body of the \<^verbatim>\<open>while True\<close> loop of \<^verbatim>\<open>execute\<close>: one submit and one poll. The state
  of the loop is \<open>retries_time\<close>, the cursor and the world. An available result that
  matches a retry pattern sleeps and goes round while retries are left; every other
  available result leaves the loop.
\<close>

definition execute_cycle :: "env \<Rightarrow> string \<Rightarrow> string \<Rightarrow> nat \<times> cursor \<times> world
    \<Rightarrow> (((exn + json) \<times> cursor \<times> world) + nat \<times> cursor \<times> world) option" where
  "execute_cycle env final_code language s =
     (case s of
        (retries_time, c, w) \<Rightarrow>
          (case submitLivyCode env final_code language c w of
             None \<Rightarrow> None
           | Some (Inl e, c1, w1) \<Rightarrow> Some (Inl (Inl e, c1, w1))
           | Some (Inr res_obj, c1, w1) \<Rightarrow>
               (case getLivyResult env c1 res_obj w1 of
                  None \<Rightarrow> None
                | Some (Inl e, w2) \<Rightarrow> Some (Inl (Inl e, c1, w2))
                | Some (Inr res, w2) \<Rightarrow>
                    (case getitem res ''state'' of
                       Inl e \<Rightarrow> Some (Inl (Inl e, c1, w2))
                     | Inr st \<Rightarrow>
                         if st = JStr ''available'' then
                           (case check_retry_condition_when_execute res of
                              Inl e \<Rightarrow> Some (Inl (Inl e, c1, w2))
                            | Inr True \<Rightarrow>
                                if retries_time < DEFAULT_EXECUTE_RETRIES_TIME
                                then Some (Inr (retries_time + 1, c1,
                                       sleep (retries_time * DEFAULT_EXECUTE_RETRIES_WAIT
                                              + DEFAULT_EXECUTE_RETRIES_WAIT) w2))
                                else Some (Inl (Inr res, c1, w2))
                            | Inr False \<Rightarrow> Some (Inl (Inr res, c1, w2)))
                         else Some (Inr (retries_time, c1, w2))))))"

text \<open>
  What \<^verbatim>\<open>execute\<close> does with the final result. With status \<^verbatim>\<open>ok\<close> the rows and the
  schema are stored, one assignment after the other; with any other status both are set
  to \<open>None\<close> and then the error is built from the remote error value and raised.
\<close>

definition store_result :: "json \<Rightarrow> cursor \<Rightarrow> (exn + unit) \<times> cursor" where
  "store_result res c =
     (case output_field res ''status'' of
        Inl e \<Rightarrow> (Inl e, c)
      | Inr st \<Rightarrow>
          if st = JStr ''ok'' then
            (case output_field res ''data'' of
               Inl e \<Rightarrow> (Inl e, c)
             | Inr d \<Rightarrow>
                 (case getitem d ''application/json'' of
                    Inl e \<Rightarrow> (Inl e, c)
                  | Inr vals \<Rightarrow>
                      (case py_len vals of
                         Inl e \<Rightarrow> (Inl e, c)
                       | Inr n \<Rightarrow>
                           if n \<ge> 1 then
                             (case getitem vals ''data'' of
                                Inl e \<Rightarrow> (Inl e, c)
                              | Inr rs \<Rightarrow>
                                  (case getitem vals ''schema'' of
                                     Inl e \<Rightarrow> (Inl e, c\<lparr>rows := Some rs\<rparr>)
                                   | Inr sc \<Rightarrow>
                                       (case getitem sc ''fields'' of
                                          Inl e \<Rightarrow> (Inl e, c\<lparr>rows := Some rs\<rparr>)
                                        | Inr fs \<Rightarrow>
                                            (Inr (), c\<lparr>rows := Some rs, schema := Some fs\<rparr>))))
                           else (Inr (), c\<lparr>rows := Some (JArr []), schema := Some (JArr [])\<rparr>))))
          else
            (case output_field res ''evalue'' of
               Inl e \<Rightarrow> (Inl e, c\<lparr>rows := None, schema := None\<rparr>)
             | Inr (JStr ev) \<Rightarrow>
                 (Inl (DbtDatabaseError (''Error while executing query: '' @ ev)),
                  c\<lparr>rows := None, schema := None\<rparr>)
             | Inr _ \<Rightarrow> (Inl TypeError, c\<lparr>rows := None, schema := None\<rparr>)))"

text \<open>
  \<^verbatim>\<open>execute(code, language, *parameters)\<close>: interpolate the parameters if there are
  any, dedent scripting code or strip the comments of SQL, run the loop from
  \<open>retries_time = 0\<close>, store the result.
\<close>

definition final_code :: "env \<Rightarrow> string \<Rightarrow> string \<Rightarrow> string" where
  "final_code env code language =
     (if language = ''pyspark'' then getLivyPyspark env code else getLivySQL code)"

definition execute :: "env \<Rightarrow> string \<Rightarrow> string \<Rightarrow> pyval list \<Rightarrow> cursor \<Rightarrow> world
    \<Rightarrow> ((exn + unit) \<times> cursor \<times> world) option" where
  "execute env code language parameters c w =
     (case (if length parameters > 0 then format env code parameters else Inr code) of
        Inl e \<Rightarrow> Some (Inl e, c, w)
      | Inr code1 \<Rightarrow>
          (case while_True (execute_cycle env (final_code env code1 language) language) (0, c, w) of
             None \<Rightarrow> None
           | Some (Inl e, c1, w1) \<Rightarrow> Some (Inl e, c1, w1)
           | Some (Inr res, c1, w1) \<Rightarrow>
               (case store_result res c1 of (r, c2) \<Rightarrow> Some (r, c2, w1))))"

text \<open>
  \<^verbatim>\<open>fetchall\<close> returns \<^verbatim>\<open>self._rows\<close>. In a cursor \<open>None\<close> and a stored decoded \<^verbatim>\<open>null\<close>
  are the same Python value.
\<close>

definition fetchall :: "cursor \<Rightarrow> json option" where
  "fetchall c = (case rows c of Some JNull \<Rightarrow> None | r \<Rightarrow> r)"

text \<open>
  \<^verbatim>\<open>fetchone\<close>: \<^verbatim>\<open>self._rows.pop(0)\<close> takes the first row of a list; a dictionary has no
  key 0 and a string has no \<^verbatim>\<open>pop\<close>. A decoded \<^verbatim>\<open>null\<close> is \<open>None\<close>.
\<close>

definition fetchone :: "cursor \<Rightarrow> (exn + json option) \<times> cursor" where
  "fetchone c =
     (case rows c of
        None \<Rightarrow> (Inr None, c)
      | Some JNull \<Rightarrow> (Inr None, c)
      | Some r \<Rightarrow>
          (case py_len r of
             Inl e \<Rightarrow> (Inl e, c)
           | Inr n \<Rightarrow>
               if n > 0 then
                 (case r of
                    JArr (x # xs) \<Rightarrow> (Inr (Some x), c\<lparr>rows := Some (JArr xs)\<rparr>)
                  | JObj kvs \<Rightarrow> (Inl KeyError, c)
                  | _ \<Rightarrow> (Inl AttributeError, c))
               else (Inr None, c)))"

text \<open>
  \<^verbatim>\<open>description\<close>: one tuple
  \<^verbatim>\<open>(field["name"], field["type"], None, None, None, None, field["nullable"])\<close> for each
  field of the schema, the empty list when there is no schema.
\<close>

fun describe_fields :: "json list \<Rightarrow> exn + (json \<times> json \<times> json \<times> json \<times> json \<times> json \<times> json) list"
  where
  "describe_fields [] = Inr []"
| "describe_fields (fld # flds) =
     (case getitem fld ''name'' of
        Inl e \<Rightarrow> Inl e
      | Inr nm \<Rightarrow>
          (case getitem fld ''type'' of
             Inl e \<Rightarrow> Inl e
           | Inr ty \<Rightarrow>
               (case getitem fld ''nullable'' of
                  Inl e \<Rightarrow> Inl e
                | Inr nu \<Rightarrow>
                    (case describe_fields flds of
                       Inl e \<Rightarrow> Inl e
                     | Inr ds \<Rightarrow> Inr ((nm, ty, JNull, JNull, JNull, JNull, nu) # ds)))))"

definition description :: "cursor \<Rightarrow> exn + (json \<times> json \<times> json \<times> json \<times> json \<times> json \<times> json) list"
  where
  "description c =
     (case schema c of
        None \<Rightarrow> Inr []
      | Some JNull \<Rightarrow> Inr []
      | Some sc \<Rightarrow> (case py_iter sc of Inl e \<Rightarrow> Inl e | Inr flds \<Rightarrow> describe_fields flds))"

definition close :: "cursor \<Rightarrow> cursor" where
  "close c = c\<lparr>rows := None\<rparr>"

section \<open>Describing the environment\<close>

text \<open>
  The hypotheses of the theorems speak about the environment through these
  predicates. \<open>tokens_granted\<close>: the identity provider never refuses a token.
  \<open>answers env k m u d r\<close>: the \<open>k\<close>-th HTTP call of the process, if it is the request
  \<open>m u d\<close>, gets the outcome \<open>r\<close>, whatever bearer token it carries.
\<close>

definition tokens_granted :: "env \<Rightarrow> bool" where
  "tokens_granted env = (\<forall>a k. \<exists>t. get_token env a k = Inr t)"

definition answers :: "env \<Rightarrow> nat \<Rightarrow> http_method \<Rightarrow> string \<Rightarrow> json option \<Rightarrow> http_result \<Rightarrow> bool" where
  "answers env k m u d r = (\<forall>h. server env k \<lparr>meth = m, url = u, data = d, hdrs = h\<rparr> = r)"

text \<open>
  The world after the headers of a request have been computed, the headers themselves,
  and the world after the request has been sent.
\<close>

definition after_headers :: "env \<Rightarrow> creds \<Rightarrow> world \<Rightarrow> world" where
  "after_headers env cr w = snd (get_headers env cr False w)"

definition bearer :: "env \<Rightarrow> creds \<Rightarrow> world \<Rightarrow> (string \<times> string) list" where
  "bearer env cr w = (case fst (get_headers env cr False w) of Inl e \<Rightarrow> [] | Inr h \<Rightarrow> h)"

definition sent :: "env \<Rightarrow> creds \<Rightarrow> http_method \<Rightarrow> string \<Rightarrow> json option \<Rightarrow> world \<Rightarrow> world" where
  "sent env cr m u d w = (after_headers env cr w)\<lparr>calls := calls w + 1, trace := trace w @ [Http m u d]\<rparr>"

text \<open>
  What the submit loop sends and sleeps when it starts at \<open>retries_time = rt\<close> and retries
  \<open>n\<close> times: \<open>n\<close> requests each followed by a sleep of \<open>10 * (retries_time + 1)\<close>
  seconds, then the last request.
\<close>

fun retry_events :: "string \<Rightarrow> json \<Rightarrow> nat \<Rightarrow> nat \<Rightarrow> event list" where
  "retry_events u p rt 0 = [Http POST u (Some p)]"
| "retry_events u p rt (Suc n) =
     Http POST u (Some p) # Sleep (rt * 10 + 10) # retry_events u p (rt + 1) n"


section \<open>Describing session discovery\<close>

text \<open>
  A listed session is eligible when its name is the configured one and its listed state
  is not dead, shutting down or killed. \<open>last_eligible\<close> is the id of the last eligible
  session of a listing, \<open>first_eligible\<close> the id of the first one; both are \<open>previous\<close>
  when no session is eligible. \<open>listing\<close> is what the listing request of
  \<open>get_exist_session\<close> yields. A listed session is well formed when it has a name, a
  state and a string id. \<open>answers_idle env base k\<close>: the \<open>k\<close>-th HTTP call, if it polls a
  session under \<open>base\<close>, finds it idle. \<open>poll_events base ss\<close> is one poll for each session
  of \<open>ss\<close>, in order. \<open>poll_run base s seg\<close>: the events \<open>seg\<close> are polls of the session
  \<open>s\<close> and sleeps of \<open>DEFAULT_POLL_WAIT\<close> seconds only, at least one poll, and end with a
  poll.
\<close>

definition eligible :: "string \<Rightarrow> json \<Rightarrow> bool" where
  "eligible name s =
     (getitem s ''name'' = Inr (JStr name) \<and>
      (case getitem s ''livyState'' of Inl e \<Rightarrow> False | Inr ls \<Rightarrow> ls \<notin> set invalid_states))"

definition ident_of :: "json \<Rightarrow> string option" where
  "ident_of s = (case getitem s ''id'' of Inr (JStr i) \<Rightarrow> Some i | _ \<Rightarrow> None)"

definition last_eligible :: "string \<Rightarrow> json list \<Rightarrow> string option \<Rightarrow> string option" where
  "last_eligible name ss previous =
     (case filter (eligible name) ss of [] \<Rightarrow> previous | m # ms \<Rightarrow> ident_of (last (m # ms)))"

definition first_eligible :: "string \<Rightarrow> json list \<Rightarrow> string option \<Rightarrow> string option" where
  "first_eligible name ss previous =
     (case filter (eligible name) ss of [] \<Rightarrow> previous | m # ms \<Rightarrow> ident_of m)"

definition listing :: "env \<Rightarrow> nat \<Rightarrow> world \<Rightarrow> exn + json list" where
  "listing env self w =
     (case json_of (fst (http env (credential (heap w self)) True GET
                           (connect_url (heap w self) @ ''/sessions'') None w)) of
        Inl e \<Rightarrow> Inl e
      | Inr res \<Rightarrow>
          (case getitem res ''items'' of Inl e \<Rightarrow> Inl e | Inr items \<Rightarrow> py_iter items))"

definition well_formed :: "json \<Rightarrow> bool" where
  "well_formed s =
     (case (getitem s ''name'', getitem s ''livyState'', getitem s ''id'') of
        (Inr n, Inr ls, Inr (JStr i)) \<Rightarrow> True
      | _ \<Rightarrow> False)"

definition answers_idle :: "env \<Rightarrow> string \<Rightarrow> nat \<Rightarrow> bool" where
  "answers_idle env base k =
     (\<forall>i h. \<exists>st j sv.
         server env k \<lparr>meth = GET, url = base @ ''/sessions/'' @ i, data = None, hdrs = h\<rparr>
           = Response st (Some j) \<and>
         getitem j ''state'' = Inr sv \<and> sv \<noteq> JStr ''starting'' \<and> sv \<noteq> JStr ''not_started'' \<and>
         currentState j = Inr (JStr ''idle''))"

definition poll_events :: "string \<Rightarrow> json list \<Rightarrow> event list" where
  "poll_events base ss =
     concat (map (\<lambda>s. case ident_of s of None \<Rightarrow> []
                      | Some i \<Rightarrow> [Http GET (base @ ''/sessions/'' @ i) None]) ss)"

definition poll_run :: "string \<Rightarrow> json \<Rightarrow> event list \<Rightarrow> bool" where
  "poll_run base s seg =
     (case ident_of s of
        None \<Rightarrow> False
      | Some i \<Rightarrow>
          seg \<noteq> [] \<and> last seg = Http GET (base @ ''/sessions/'' @ i) None \<and>
          list_all (\<lambda>e. e = Http GET (base @ ''/sessions/'' @ i) None \<or> e = Sleep DEFAULT_POLL_WAIT)
            seg)"

section \<open>Concrete scenarios\<close>

text \<open>
  A concrete process and environment, used to run the definitions: credentials with
  CLI authentication and the session name \<^verbatim>\<open>dbt\<close>, a clock that reads 1000, local time
  at offset 0, an identity provider that always issues the token \<open>token1\<close>, and \<open>str\<close>
  and \<open>repr\<close> on strings and integers.
\<close>

definition digit :: "nat \<Rightarrow> char" where
  "digit n = ''0123456789'' ! n"

fun digits :: "nat \<Rightarrow> string" where
  "digits n = (if n < 10 then [digit n] else digits (n div 10) @ [digit (n mod 10)])"

fun str_json :: "json \<Rightarrow> string" where
  "str_json (JStr s) = s"
| "str_json (JInt i) = (if i < 0 then ''-'' else []) @ digits (nat \<bar>i\<bar>)"
| "str_json JNull = ''None''"
| "str_json (JBool b) = (if b then ''True'' else ''False'')"
| "str_json _ = []"

fun repr_json :: "json \<Rightarrow> string" where
  "repr_json (JStr s) = quoted s"
| "repr_json j = str_json j"

definition cred0 :: creds where
  "cred0 =
     \<lparr>authentication = Some ''CLI'', tenant_id = None, client_id = None, client_secret = None,
      lakehouse_endpoint = ''https://host/lakehouse'', livy_session_name = Some ''dbt'',
      livy_session_parameters = JObj [], keep_session = False, shortcuts_json_path = None,
      workspaceid = ''ws'', lakehouseid = ''lh''\<rparr>"

definition token0 :: access_token where
  "token0 = \<lparr>token = ''old'', expires_on = 1300\<rparr>"

definition token1 :: access_token where
  "token1 = \<lparr>token = ''new'', expires_on = 5000\<rparr>"

definition env_of :: "(nat \<Rightarrow> request \<Rightarrow> http_result) \<Rightarrow> env" where
  "env_of srv =
     \<lparr>server = srv, get_token = (\<lambda>a k. Inr token1), clock = (\<lambda>k. 1000), utcoffset = (\<lambda>t. 0),
      py_str = str_json, py_repr = repr_json, dedent = (\<lambda>s. s), format = (\<lambda>s ps. Inr s),
      create_shortcuts = (\<lambda>t ws lh path k. None)\<rparr>"

definition session0 :: livy_session where
  "session0 =
     \<lparr>credential = cred0, connect_url = ''https://host/lakehouse'', session_id = Some ''s1'',
      is_new_session_required = False\<rparr>"

text \<open>
  A process whose session manager holds one session object, connected as \<^verbatim>\<open>s1\<close>, with the
  token \<open>token0\<close> cached; \<open>token0\<close> expires at 1300, exactly 300 seconds after the clock's
  reading.
\<close>

definition world0 :: world where
  "world0 =
     \<lparr>trace = [], calls = 0, accessToken = Some token0, fetches = 0, ticks = 0,
      heap = (\<lambda>a. session0), allocated = 1, livy_global_session = Some 0\<rparr>"

text \<open>A service that refuses every connection.\<close>

definition no_service :: "nat \<Rightarrow> request \<Rightarrow> http_result" where
  "no_service k r = Raises ConnectionError"

definition cursor0 :: cursor where
  "cursor0 = LivyCursor cred0 0 world0"

definition error_reply :: http_result where
  "error_reply = Response 200 (Some (JObj [(''id'', JInt 0), (''state'', JStr ''error'')]))"

definition waiting_reply :: http_result where
  "waiting_reply = Response 200 (Some (JObj [(''id'', JInt 0), (''state'', JStr ''waiting'')]))"

definition errors_then_accepts :: "nat \<Rightarrow> nat \<Rightarrow> request \<Rightarrow> http_result" where
  "errors_then_accepts n k r = (if k < n then error_reply else waiting_reply)"

text \<open>
  A service that accepts every statement as statement 0 and answers every poll with an
  available result: a plain error, or a transient error on the first two polls and rows
  afterwards.
\<close>

definition result_reply :: "json \<Rightarrow> http_result" where
  "result_reply out =
     Response 200 (Some (JObj [(''id'', JInt 0), (''state'', JStr ''available''), (''output'', out)]))"

definition plain_error :: json where
  "plain_error = JObj [(''status'', JStr ''error''), (''evalue'', JStr ''Table not found'')]"

definition transient_error :: json where
  "transient_error =
     JObj [(''status'', JStr ''error''),
           (''evalue'', JStr ''Request failed: HTTP/1.1 403 Forbidden ClientRequestId: 42'')]"

definition ok_output :: json where
  "ok_output =
     JObj [(''status'', JStr ''ok''),
           (''data'', JObj [(''application/json'',
              JObj [(''schema'', JObj [(''fields'',
                       JArr [JObj [(''name'', JStr ''a''), (''type'', JStr ''int''),
                                   (''nullable'', JBool True)]])]),
                    (''data'', JArr [JArr [JInt 1]])])])]"

definition fails_plainly :: "nat \<Rightarrow> request \<Rightarrow> http_result" where
  "fails_plainly k r = (if meth r = POST then waiting_reply else result_reply plain_error)"

definition transient_twice :: "nat \<Rightarrow> request \<Rightarrow> http_result" where
  "transient_twice k r =
     (if meth r = POST then waiting_reply
      else if k < 4 then result_reply transient_error else result_reply ok_output)"

definition statements0 :: string where
  "statements0 = ''https://host/lakehouse/sessions/s1/statements''"

definition select1 :: json where
  "select1 = statement_payload ''select 1'' ''sql''"

definition had_rows :: cursor where
  "had_rows = cursor0\<lparr>rows := Some (JArr [JArr [JInt 7]]), schema := Some (JArr [])\<rparr>"

definition after_submit :: "world \<Rightarrow> world" where
  "after_submit w =
     w\<lparr>calls := calls w + 1, trace := trace w @ [Http POST statements0 (Some select1)],
       ticks := ticks w + 1\<rparr>"

definition after_poll :: "world \<Rightarrow> world" where
  "after_poll w =
     w\<lparr>calls := calls w + 1, trace := trace w @ [Http GET (statements0 @ ''/0'') None],
       ticks := ticks w + 1\<rparr>"


text \<open>Session creation: the listing and creation URL, and the answer of an idle session.\<close>

definition idle_reply :: http_result where
  "idle_reply =
     Response 200 (Some (JObj [(''state'', JStr ''idle''),
                               (''livyInfo'', JObj [(''currentState'', JStr ''idle'')])]))"

definition sessions0 :: string where
  "sessions0 = ''https://host/lakehouse/sessions''"

text \<open>A service that answers the session-creation POST with HTTP 500 and a body that is not JSON.\<close>

definition rejects_session :: "nat \<Rightarrow> request \<Rightarrow> http_result" where
  "rejects_session k r = (if meth r = POST then Response 500 None else idle_reply)"

text \<open>A service that answers the session-creation POST with HTTP 500 and a JSON body with an id.\<close>

definition rejects_with_id :: "nat \<Rightarrow> request \<Rightarrow> http_result" where
  "rejects_with_id k r =
     (if meth r = POST then Response 500 (Some (JObj [(''id'', JInt 7)])) else idle_reply)"

definition after_post_session :: world where
  "after_post_session =
     world0\<lparr>calls := 1, trace := [Http POST sessions0 (Some (session_payload cred0))], ticks := 1\<rparr>"

text \<open>
  Session discovery: a service that lists the given sessions and finds every session
  idle, a process whose session object has no id yet, and the worlds after the listing
  and after a poll of a session that was found idle.
\<close>

definition listed_session :: "string \<Rightarrow> string \<Rightarrow> string \<Rightarrow> json" where
  "listed_session i n st = JObj [(''id'', JStr i), (''name'', JStr n), (''livyState'', JStr st)]"

definition session_service :: "json list \<Rightarrow> nat \<Rightarrow> request \<Rightarrow> http_result" where
  "session_service ss k r =
     (if url r = sessions0 then Response 200 (Some (JObj [(''items'', JArr ss)])) else idle_reply)"

definition fresh_world :: world where
  "fresh_world =
     world0\<lparr>heap := (\<lambda>a. session0\<lparr>session_id := None, is_new_session_required := True\<rparr>)\<rparr>"

definition listed_world :: "world \<Rightarrow> world" where
  "listed_world w =
     w\<lparr>calls := calls w + 1, trace := trace w @ [Http GET sessions0 None], ticks := ticks w + 1\<rparr>"

definition polled :: "string \<Rightarrow> world \<Rightarrow> world" where
  "polled i w =
     set_session_id 0 (Some i)
       (w\<lparr>calls := calls w + 1, trace := trace w @ [Http GET (sessions0 @ ''/'' @ i) None],
          ticks := ticks w + 1\<rparr>)"

definition two_matches :: "json list" where
  "two_matches = [listed_session ''a'' ''dbt'' ''idle'', listed_session ''b'' ''dbt'' ''idle'']"

text \<open>
  A listing with a dead session of the configured name, two usable ones and a session of
  another name in between; and a listing whose only session is the one the object already
  holds, listed dead.
\<close>

definition mixed_listing :: "json list" where
  "mixed_listing =
     [listed_session ''x'' ''dbt'' ''dead'', listed_session ''a'' ''dbt'' ''idle'',
      listed_session ''c'' ''other'' ''idle'', listed_session ''b'' ''dbt'' ''idle'']"

definition only_dead :: "json list" where
  "only_dead = [listed_session ''s1'' ''dbt'' ''dead'']"

text \<open>
  A cursor whose session is flagged as needing replacement: \<open>connect\<close> finds the old
  session still valid but flagged, creates session \<^verbatim>\<open>s2\<close> and polls it once. The
  service answers every GET with an idle session, the creation POST with the new session,
  and the statement POSTs with three errors before it accepts.
\<close>

definition flagged_world :: world where
  "flagged_world = world0\<lparr>heap := (\<lambda>a. session0\<lparr>is_new_session_required := True\<rparr>)\<rparr>"

definition created_reply :: http_result where
  "created_reply = Response 200 (Some (JObj [(''id'', JStr ''s2''), (''state'', JStr ''starting'')]))"

definition reconnects :: "nat \<Rightarrow> request \<Rightarrow> http_result" where
  "reconnects k r =
     (if meth r = GET then idle_reply
      else if url r = sessions0 then created_reply
      else if k < 6 then error_reply else waiting_reply)"

definition reconnected_world :: world where
  "reconnected_world =
     flagged_world
       \<lparr>calls := 3,
        trace := [Http GET (sessions0 @ ''/s1'') None,
                  Http POST sessions0 (Some (session_payload cred0)),
                  Http GET (sessions0 @ ''/s2'') None],
        ticks := 3,
        heap := (\<lambda>a. session0\<lparr>is_new_session_required := True\<rparr>)
                  (0 := session0\<lparr>session_id := Some ''s2'', is_new_session_required := False\<rparr>)\<rparr>"

definition validated_world :: world where
  "validated_world =
     flagged_world\<lparr>calls := 1, trace := [Http GET (sessions0 @ ''/s1'') None], ticks := 1\<rparr>"

definition posted_world :: world where
  "posted_world =
     flagged_world
       \<lparr>calls := 2,
        trace := [Http GET (sessions0 @ ''/s1'') None,
                  Http POST sessions0 (Some (session_payload cred0))],
        ticks := 2\<rparr>"

section \<open>Theorems\<close>

text \<open>
  C10: binding conversion treats Python booleans as numbers. A bool is an instance of
  \<open>NUMBERS\<close>, because \<open>bool\<close> is a subclass of \<open>int\<close>, so the first branch of
  \<open>fix_binding\<close> converts it with \<open>float\<close>: 1.0 for True and 0.0 for False, not a quoted
  string.
\<close>

theorem fix_binding_bool:
  "isinstance (PBool b) NUMBERS \<and>
   fix_binding to_double (PBool b) = Inr (BFloat (if b then 1 else 0)) \<and>
   fix_binding to_double (PBool True) = Inr (BFloat 1) \<and>
   fix_binding to_double (PBool False) = Inr (BFloat 0) \<and>
   fix_binding to_double (PBool b) \<noteq> Inr (BStr (quoted (if b then ''True'' else ''False'')))"
  by (simp add: fix_binding_def isinstance_def NUMBERS_def DECIMALS_def issubclass_def)

text \<open>
  C8 (as claimed: every block comment of a SQL string is removed before submission,
  however many there are). The code passes \<^verbatim>\<open>re.DOTALL\<close>, the number 16, where \<^verbatim>\<open>re.sub\<close>
  takes the largest number of replacements, so only the first 16 comments are removed.
  For a statement made of 17 times \<^verbatim>\<open>/*c*/x\<close> the code that would be submitted still holds
  the last comment.
\<close>

theorem getLivySQL_seventeen_comments:
  "getLivySQL (concat (replicate 17 ''/*c*/x''))
     = concat (replicate 15 (''x'' @ [CHR 0x0A])) @ ''x/*c*/x'' \<and>
   final_code env (concat (replicate 17 ''/*c*/x'')) ''sql''
     = concat (replicate 15 (''x'' @ [CHR 0x0A])) @ ''x/*c*/x'' \<and>
   is_substring ''/*c*/'' (getLivySQL (concat (replicate 17 ''/*c*/x'')))"
proof -
  have e: "getLivySQL (concat (replicate 17 ''/*c*/x''))
             = concat (replicate 15 (''x'' @ [CHR 0x0A])) @ ''x/*c*/x''"
    by code_simp
  have s: "is_substring ''/*c*/'' (concat (replicate 15 (''x'' @ [CHR 0x0A])) @ ''x/*c*/x'')"
    by code_simp
  show ?thesis using e s by (simp add: final_code_def)
qed

section \<open>The token cache: when a token is fetched\<close>

lemma py_int_div60: "(py_int (real_of_int d / 60) < 5) = (d < 300)"
  unfolding py_int_def by (auto simp: floor_less_iff ceiling_less_iff)

lemma refresh_necessary_iff:
  "utcoffset env ts = utcoffset env \<lfloor>clock env (ticks w)\<rfloor> \<Longrightarrow>
   is_token_refresh_necessary env ts w
     = (ts - \<lfloor>clock env (ticks w)\<rfloor> < 300, w\<lparr>ticks := ticks w + 1\<rparr>)"
  by (simp add: is_token_refresh_necessary_def fromtimestamp_def Let_def py_int_div60)

lemma refresh_token_fetches: "fetches (snd (refresh_token env cr w)) = fetches w + 1"
  by (simp add: refresh_token_def get_cli_access_token_def get_sp_access_token_def
      fetch_token_def split: sum.splits prod.splits)

text \<open>
  C7 (as claimed: a fetch happens exactly when no token is cached or the cached token
  expires at most 5 minutes from now, a token expiring in exactly 5 minutes included).
  The code refreshes when \<^verbatim>\<open>int(difference.total_seconds() / 60) < 5\<close>, that is when the
  token expires less than 300 seconds after the current whole second. In the concrete
  process the cached token expires exactly 300 seconds from now: no token is fetched
  and the cache keeps the old token.
\<close>

theorem get_headers_exactly_five_minutes:
  "expires_on token0 - \<lfloor>clock (env_of no_service) (ticks world0)\<rfloor> = 300 \<and>
   get_headers (env_of no_service) cred0 False world0
     = (Inr (headers_of token0), world0\<lparr>ticks := 1\<rparr>) \<and>
   fetches (snd (get_headers (env_of no_service) cred0 False world0)) = fetches world0 \<and>
   accessToken (snd (get_headers (env_of no_service) cred0 False world0)) = Some token0"
  by (simp add: get_headers_def is_token_refresh_necessary_def fromtimestamp_def py_int_def
      env_of_def world0_def token0_def Let_def)

text \<open>
  C7, amended. \<open>get_headers\<close> fetches a token if and only if no token is cached or the
  cached token expires less than 5 minutes (300 seconds) after the current whole second,
  the local offset being the same at both instants. A cached token that expires 5
  minutes from now or later, exactly 5 minutes included, is used as it is and nothing
  is fetched. Whenever a token is fetched and the fetch succeeds, the fresh token
  replaces the cache and is the one in the headers; when the fetch fails the failure
  propagates and the cache is unchanged.
\<close>

theorem get_headers_refresh:
  "(accessToken w = None \<longrightarrow> fetches (snd (get_headers env cr tp w)) = fetches w + 1) \<and>
   (accessToken w = Some t \<and>
    utcoffset env (expires_on t) = utcoffset env \<lfloor>clock env (ticks w)\<rfloor> \<longrightarrow>
      (if expires_on t - \<lfloor>clock env (ticks w)\<rfloor> < 300
       then fetches (snd (get_headers env cr tp w)) = fetches w + 1
       else get_headers env cr tp w = (Inr (headers_of t), w\<lparr>ticks := ticks w + 1\<rparr>))) \<and>
   (fetches (snd (get_headers env cr tp w)) = fetches w + 1 \<longrightarrow>
      (case fst (get_headers env cr tp w) of
         Inr h \<Rightarrow> (\<exists>a t'. get_token env a (fetches w) = Inr t' \<and> h = headers_of t' \<and>
                     accessToken (snd (get_headers env cr tp w)) = Some t')
       | Inl e \<Rightarrow> (\<exists>a. get_token env a (fetches w) = Inl e) \<and>
                     accessToken (snd (get_headers env cr tp w)) = accessToken w))"
proof (intro conjI impI)
  assume "accessToken w = None"
  then show "fetches (snd (get_headers env cr tp w)) = fetches w + 1"
    by (simp add: get_headers_def refresh_token_fetches)
next
  assume "accessToken w = Some t \<and>
    utcoffset env (expires_on t) = utcoffset env \<lfloor>clock env (ticks w)\<rfloor>"
  then show "if expires_on t - \<lfloor>clock env (ticks w)\<rfloor> < 300
       then fetches (snd (get_headers env cr tp w)) = fetches w + 1
       else get_headers env cr tp w = (Inr (headers_of t), w\<lparr>ticks := ticks w + 1\<rparr>)"
    by (simp add: get_headers_def refresh_necessary_iff refresh_token_fetches)
next
  assume "fetches (snd (get_headers env cr tp w)) = fetches w + 1"
  then show "case fst (get_headers env cr tp w) of
         Inr h \<Rightarrow> (\<exists>a t'. get_token env a (fetches w) = Inr t' \<and> h = headers_of t' \<and>
                     accessToken (snd (get_headers env cr tp w)) = Some t')
       | Inl e \<Rightarrow> (\<exists>a. get_token env a (fetches w) = Inl e) \<and>
                     accessToken (snd (get_headers env cr tp w)) = accessToken w"
    by (cases "accessToken w")
      (auto simp: get_headers_def refresh_token_def get_cli_access_token_def
        get_sp_access_token_def fetch_token_def is_token_refresh_necessary_def Let_def
        split: sum.splits prod.splits if_splits bool.splits)
qed

theorem get_headers_refresh_witness:
  "fetches (snd (get_headers (env_of no_service) cred0 False (world0\<lparr>accessToken := None\<rparr>))) = 1 \<and>
   get_headers (env_of no_service) cred0 False world0
     = (Inr (headers_of token0), world0\<lparr>ticks := 1\<rparr>) \<and>
   fetches (snd (get_headers (env_of no_service) cred0 False
      (world0\<lparr>accessToken := Some (token0\<lparr>expires_on := 1299\<rparr>)\<rparr>))) = 1 \<and>
   accessToken (snd (get_headers (env_of no_service) cred0 False
      (world0\<lparr>accessToken := Some (token0\<lparr>expires_on := 1299\<rparr>)\<rparr>))) = Some token1"
  using get_headers_refresh [of "world0\<lparr>accessToken := None\<rparr>" "env_of no_service" cred0 False]
    get_headers_refresh [of world0 "env_of no_service" cred0 False token0]
    get_headers_refresh [of "world0\<lparr>accessToken := Some (token0\<lparr>expires_on := 1299\<rparr>)\<rparr>"
      "env_of no_service" cred0 False "token0\<lparr>expires_on := 1299\<rparr>"]
  by (auto simp: env_of_def world0_def token0_def split: sum.splits)


section \<open>Requests, the token cache and loops\<close>

lemma get_headers_tokenPrint: "get_headers env cr tp w = get_headers env cr False w"
  by (simp add: get_headers_def)

lemma refresh_token_frame:
  "trace (snd (refresh_token env cr w)) = trace w"
  "calls (snd (refresh_token env cr w)) = calls w"
  "heap (snd (refresh_token env cr w)) = heap w"
  "allocated (snd (refresh_token env cr w)) = allocated w"
  "livy_global_session (snd (refresh_token env cr w)) = livy_global_session w"
  by (simp_all add: refresh_token_def get_cli_access_token_def get_sp_access_token_def
      fetch_token_def split: sum.splits prod.splits)

lemma after_headers_frame [simp]:
  "trace (after_headers env cr w) = trace w"
  "calls (after_headers env cr w) = calls w"
  "heap (after_headers env cr w) = heap w"
  "allocated (after_headers env cr w) = allocated w"
  "livy_global_session (after_headers env cr w) = livy_global_session w"
  by (auto simp: after_headers_def get_headers_def refresh_token_frame
      is_token_refresh_necessary_def Let_def split: option.splits bool.splits)

lemma refresh_token_granted:
  "tokens_granted env \<Longrightarrow> \<exists>h. fst (refresh_token env cr w) = Inr h"
  unfolding tokens_granted_def refresh_token_def get_cli_access_token_def get_sp_access_token_def fetch_token_def
  by (auto split: sum.splits prod.splits) (metis Inl_Inr_False)+

lemma get_headers_granted:
  "tokens_granted env \<Longrightarrow> get_headers env cr tp w = (Inr (bearer env cr w), after_headers env cr w)"
proof -
  assume g: "tokens_granted env"
  have "\<exists>h. fst (get_headers env cr False w) = Inr h"
    using refresh_token_granted[OF g]
    by (auto simp: get_headers_def is_token_refresh_necessary_def Let_def split: option.splits bool.splits)
  then show ?thesis
    by (subst get_headers_tokenPrint) (auto simp: bearer_def after_headers_def prod_eq_iff)
qed

lemma http_granted:
  "tokens_granted env \<Longrightarrow>
   http env cr tp m u d w =
     (server env (calls w) \<lparr>meth = m, url = u, data = d, hdrs = bearer env cr w\<rparr>,
      (after_headers env cr w)\<lparr>calls := calls w + 1, trace := trace w @ [Http m u d]\<rparr>)"
  by (simp add: http_def get_headers_granted)

lemma while_True_exit:
  "while_True body s = Some r \<Longrightarrow> \<exists>s'. body s' = Some (Inl r)"
proof (induction rule: while_True.raw_induct[rotated 1, consumes 1])
  case (1 while_True body s r)
  then show ?case by (auto split: option.splits sum.splits)
qed

lemma sent_frame [simp]:
  "trace (sent env cr m u d w) = trace w @ [Http m u d]"
  "calls (sent env cr m u d w) = calls w + 1"
  "heap (sent env cr m u d w) = heap w"
  "allocated (sent env cr m u d w) = allocated w"
  "livy_global_session (sent env cr m u d w) = livy_global_session w"
  by (simp_all add: sent_def)

lemma sleep_frame [simp]:
  "trace (sleep n w) = trace w @ [Sleep n]"
  "calls (sleep n w) = calls w"
  "heap (sleep n w) = heap w"
  "allocated (sleep n w) = allocated w"
  "livy_global_session (sleep n w) = livy_global_session w"
  by (simp_all add: sleep_def)

lemma http_answers:
  "tokens_granted env \<Longrightarrow> answers env (calls w) m u d r \<Longrightarrow>
   http env cr tp m u d w = (r, sent env cr m u d w)"
  by (simp add: http_granted answers_def sent_def)

lemma http_env_of:
  "accessToken w = Some token0 \<Longrightarrow>
   http (env_of srv) cr tp m u d w =
     (srv (calls w) \<lparr>meth = m, url = u, data = d, hdrs = headers_of token0\<rparr>,
      w\<lparr>calls := calls w + 1, trace := trace w @ [Http m u d], ticks := ticks w + 1\<rparr>)"
  by (simp add: http_def get_headers_def is_token_refresh_necessary_def fromtimestamp_def
      py_int_def env_of_def token0_def Let_def)

lemma submit_once_error:
  assumes "tokens_granted env" "statements_url c = Inr u"
    "answers env (calls w) POST u (Some p) (Response st (Some j))"
    "getitem j ''state'' = Inr (JStr ''error'')" "rt < 5"
  shows "submit_once env c p (rt, w) = Some (Inr (rt + 1, sleep (rt * 10 + 10) (sent env (cursor_credential c) POST u (Some p) w)))"
  using assms
  by (simp add: submit_once_def http_answers check_retry_condition_when_submit_code_def
      DEFAULT_EXECUTE_RETRIES_TIME_def DEFAULT_EXECUTE_RETRIES_WAIT_def)

lemma submit_once_final:
  assumes "tokens_granted env" "statements_url c = Inr u"
    "answers env (calls w) POST u (Some p) (Response st (Some j))"
    "getitem j ''state'' = Inr v" "v \<noteq> JStr ''error'' \<or> rt = 5"
  shows "submit_once env c p (rt, w) = Some (Inl (Inr (st, Some j), sent env (cursor_credential c) POST u (Some p) w))"
  using assms
  by (auto simp add: submit_once_def http_answers check_retry_condition_when_submit_code_def
      DEFAULT_EXECUTE_RETRIES_TIME_def DEFAULT_EXECUTE_RETRIES_WAIT_def split: bool.splits)

lemma submit_loop:
  assumes tok: "tokens_granted env" and u: "statements_url c = Inr u"
  shows "rt + n \<le> 5 \<Longrightarrow>
    (\<forall>i<n. \<exists>st j. answers env (calls w + i) POST u (Some p) (Response st (Some j))
        \<and> getitem j ''state'' = Inr (JStr ''error'')) \<Longrightarrow>
    answers env (calls w + n) POST u (Some p) (Response st (Some j)) \<Longrightarrow>
    getitem j ''state'' = Inr v \<Longrightarrow> v \<noteq> JStr ''error'' \<or> rt + n = 5 \<Longrightarrow>
    \<exists>w'. while_True (submit_once env c p) (rt, w) = Some (Inr (st, Some j), w')
       \<and> trace w' = trace w @ retry_events u p rt n \<and> calls w' = calls w + n + 1
       \<and> heap w' = heap w \<and> livy_global_session w' = livy_global_session w"
proof (induction n arbitrary: rt w)
  case 0
  then show ?case
    by (subst while_True.simps) (simp add: submit_once_final[OF tok u, where v = v])
next
  case (Suc n)
  from Suc.prems(2) obtain st0 j0 where
    a0: "answers env (calls w) POST u (Some p) (Response st0 (Some j0))"
    and e0: "getitem j0 ''state'' = Inr (JStr ''error'')"
    by (metis add.right_neutral zero_less_Suc)
  let ?w1 = "sleep (rt * 10 + 10) (sent env (cursor_credential c) POST u (Some p) w)"
  have rt: "rt < 5" using Suc.prems(1) by simp
  have step: "submit_once env c p (rt, w) = Some (Inr (rt + 1, ?w1))"
    by (rule submit_once_error[OF tok u a0 e0 rt])
  have c1: "calls ?w1 = calls w + 1" by simp
  have p2: "\<forall>i<n. \<exists>st j. answers env (calls ?w1 + i) POST u (Some p) (Response st (Some j))
        \<and> getitem j ''state'' = Inr (JStr ''error'')"
  proof (intro allI impI)
    fix i assume "i < n"
    then have "Suc i < Suc n" by simp
    with Suc.prems(2) have "\<exists>st j. answers env (calls w + Suc i) POST u (Some p) (Response st (Some j))
        \<and> getitem j ''state'' = Inr (JStr ''error'')" by blast
    then show "\<exists>st j. answers env (calls ?w1 + i) POST u (Some p) (Response st (Some j))
        \<and> getitem j ''state'' = Inr (JStr ''error'')" by simp
  qed
  have p3: "answers env (calls ?w1 + n) POST u (Some p) (Response st (Some j))"
    using Suc.prems(3) by simp
  have "\<exists>w'. while_True (submit_once env c p) (rt + 1, ?w1) = Some (Inr (st, Some j), w')
       \<and> trace w' = trace ?w1 @ retry_events u p (rt + 1) n \<and> calls w' = calls ?w1 + n + 1
       \<and> heap w' = heap ?w1 \<and> livy_global_session w' = livy_global_session ?w1"
    using Suc.prems(1,5) by (intro Suc.IH[OF _ p2 p3 Suc.prems(4)]) auto
  then show ?case
    by (subst while_True.simps) (auto simp: step)
qed

lemma submitLivyCode_loop:
  assumes "\<not> is_new_session_required (heap w (livy_session c))" "statements_url c = Inr u"
  shows "submitLivyCode env code language c w =
    (case while_True (submit_once env c (statement_payload code language)) (0, w) of
       None \<Rightarrow> None | Some (r, w2) \<Rightarrow> Some (r, c, w2))"
  using assms by (simp add: submitLivyCode_def)


lemma submitLivyCode_reconnected:
  assumes pre: "(\<not> is_new_session_required (heap w (livy_session c)) \<and> c1 = c \<and> w1 = w) \<or>
      (is_new_session_required (heap w (livy_session c)) \<and>
       (\<exists>conn. connect env (cursor_credential c) w = Some (Inr conn, w1)) \<and>
       c1 = c\<lparr>cursor_session_id := session_id (heap w1 (livy_session c))\<rparr>)"
    and u: "statements_url c1 = Inr u"
  shows "submitLivyCode env code language c w =
    (case while_True (submit_once env c1 (statement_payload code language)) (0, w1) of
       None \<Rightarrow> None | Some (r, w2) \<Rightarrow> Some (r, c1, w2))"
  using pre
proof (elim disjE conjE exE)
  assume a: "\<not> is_new_session_required (heap w (livy_session c))" "c1 = c" "w1 = w"
  show ?thesis
    unfolding a(2,3) using a(1) u[unfolded a(2)] by (simp add: submitLivyCode_def)
next
  fix conn
  assume a: "is_new_session_required (heap w (livy_session c))"
    "connect env (cursor_credential c) w = Some (Inr conn, w1)"
    "c1 = c\<lparr>cursor_session_id := session_id (heap w1 (livy_session c))\<rparr>"
  show ?thesis
    unfolding a(3) using a(1,2) u[unfolded a(3)] by (simp add: submitLivyCode_def)
qed

lemma reconnects_connect:
  "connect (env_of reconnects) cred0 flagged_world
     = Some (Inr (LivyConnection cred0 0 reconnected_world), reconnected_world)"
proof -
  let ?E = "env_of reconnects"
  have v: "is_valid_session ?E 0 flagged_world = (Inr True, validated_world)"
    by (simp add: is_valid_session_def get_session_def session_url_def http_env_of
        flagged_world_def world0_def session0_def reconnects_def idle_reply_def currentState_def
        invalid_states_def sessions0_def validated_world_def)
  have p: "post_session ?E 0 (session_payload cred0) validated_world
     = (Inr (Some (200, Some (JObj [(''id'', JStr ''s2''), (''state'', JStr ''starting'')]))),
        posted_world)"
    by (simp add: post_session_def http_env_of flagged_world_def world0_def session0_def
        reconnects_def created_reply_def raise_for_status_def sessions0_def validated_world_def
        posted_world_def)
  have s: "py_str ?E (JStr ''s2'') = ''s2''"
    by (simp add: env_of_def)
  have w: "while_True (wait_for_started ?E 0) (set_session_id 0 (Some ''s2'') posted_world)
     = Some (Inr (), reconnected_world)"
    apply (subst while_True.simps)
    apply (simp add: wait_for_started_def get_session_def http_env_of set_session_id_def
        flagged_world_def world0_def session0_def session_url_def reconnects_def
        idle_reply_def currentState_def sessions0_def set_is_new_session_required_def
        reconnected_world_def posted_world_def)
    done
  have r: "session_id (heap reconnected_world 0) = Some ''s2''"
    by (simp add: reconnected_world_def)
  have c: "create_session ?E 0 (session_payload cred0) validated_world
     = Some (Inr (Some ''s2''), reconnected_world)"
    by (simp add: create_session_def p s w r)
  have f: "set_is_new_session_required 0 False reconnected_world = reconnected_world"
    by (simp add: set_is_new_session_required_def reconnected_world_def flagged_world_def
        world0_def)
  have g: "livy_global_session flagged_world = Some 0"
    "is_new_session_required (heap validated_world 0)"
    by (simp_all add: flagged_world_def world0_def validated_world_def)
  show ?thesis
    using g by (simp add: connect_def v c f)
qed

text \<open>
  C3: if the statement-submission POST returns top-level state \<^verbatim>\<open>error\<close> exactly 3 times
  and then a non-error response, the submit step of \<open>execute\<close> issues exactly 4 submit
  calls, each to the same URL \<^verbatim>\<open><connect_url>/sessions/<session id>/statements\<close> and each
  carrying the same body, the object with \<^verbatim>\<open>code\<close> the submitted code and \<^verbatim>\<open>kind\<close> the
  language, sleeps 10, 20 and 30 seconds between consecutive calls, and returns the
  non-error response. This holds when the bound session is not flagged as needing
  replacement (the four calls are then the only events) and when it is flagged and the
  reconnection succeeds (the four calls then follow the events of the reconnection, and the
  URL carries the id of the session the reconnection bound). Tokens are granted.
\<close>

theorem submit_three_errors:
  assumes tok: "tokens_granted env"
    and pre: "(\<not> is_new_session_required (heap w (livy_session c)) \<and> c1 = c \<and> w1 = w) \<or>
      (is_new_session_required (heap w (livy_session c)) \<and>
       (\<exists>conn. connect env (cursor_credential c) w = Some (Inr conn, w1)) \<and>
       c1 = c\<lparr>cursor_session_id := session_id (heap w1 (livy_session c))\<rparr>)"
    and sid: "cursor_session_id c1 = Some sid"
    and u: "u = cursor_connect_url c1 @ ''/sessions/'' @ sid @ ''/statements''"
    and body: "body = JObj [(''code'', JStr code), (''kind'', JStr language)]"
    and err: "\<forall>i<3. \<exists>st j.
        answers env (calls w1 + i) POST u (Some body) (Response st (Some j)) \<and>
        getitem j ''state'' = Inr (JStr ''error'')"
    and ok: "answers env (calls w1 + 3) POST u (Some body) (Response st (Some j))"
    and v: "getitem j ''state'' = Inr v" "v \<noteq> JStr ''error''"
  shows "\<exists>w'. submitLivyCode env code language c w = Some (Inr (st, Some j), c1, w') \<and>
    trace w' = trace w1 @
      [Http POST u (Some body), Sleep 10, Http POST u (Some body), Sleep 20,
       Http POST u (Some body), Sleep 30, Http POST u (Some body)] \<and>
    calls w' = calls w1 + 4"
proof -
  have su: "statements_url c1 = Inr u"
    using sid u by (simp add: statements_url_def session_url_def)
  have b: "statement_payload code language = body"
    using body by (simp add: statement_payload_def)
  have "\<exists>w'. while_True (submit_once env c1 body) (0, w1) = Some (Inr (st, Some j), w')
       \<and> trace w' = trace w1 @ retry_events u body 0 3
       \<and> calls w' = calls w1 + 3 + 1
       \<and> heap w' = heap w1 \<and> livy_global_session w' = livy_global_session w1"
    using err ok v by (intro submit_loop[OF tok su]) auto
  then show ?thesis
    by (auto simp: submitLivyCode_reconnected[OF pre su] b eval_nat_numeral)
qed

theorem submit_three_errors_witness:
  "(\<exists>w'. submitLivyCode (env_of (errors_then_accepts 3)) ''select 1'' ''sql'' cursor0 world0
       = Some (Inr (200, Some (JObj [(''id'', JInt 0), (''state'', JStr ''waiting'')])), cursor0, w') \<and>
     trace w' =
       [Http POST ''https://host/lakehouse/sessions/s1/statements''
          (Some (JObj [(''code'', JStr ''select 1''), (''kind'', JStr ''sql'')])), Sleep 10,
        Http POST ''https://host/lakehouse/sessions/s1/statements''
          (Some (JObj [(''code'', JStr ''select 1''), (''kind'', JStr ''sql'')])), Sleep 20,
        Http POST ''https://host/lakehouse/sessions/s1/statements''
          (Some (JObj [(''code'', JStr ''select 1''), (''kind'', JStr ''sql'')])), Sleep 30,
        Http POST ''https://host/lakehouse/sessions/s1/statements''
          (Some (JObj [(''code'', JStr ''select 1''), (''kind'', JStr ''sql'')]))] \<and>
     calls w' = 4) \<and>
   (\<exists>w'. submitLivyCode (env_of reconnects) ''select 1'' ''sql'' cursor0 flagged_world
       = Some (Inr (200, Some (JObj [(''id'', JInt 0), (''state'', JStr ''waiting'')])),
               cursor0\<lparr>cursor_session_id := Some ''s2''\<rparr>, w') \<and>
     trace w' =
       [Http GET ''https://host/lakehouse/sessions/s1'' None,
        Http POST ''https://host/lakehouse/sessions'' (Some (session_payload cred0)),
        Http GET ''https://host/lakehouse/sessions/s2'' None,
        Http POST ''https://host/lakehouse/sessions/s2/statements''
          (Some (JObj [(''code'', JStr ''select 1''), (''kind'', JStr ''sql'')])), Sleep 10,
        Http POST ''https://host/lakehouse/sessions/s2/statements''
          (Some (JObj [(''code'', JStr ''select 1''), (''kind'', JStr ''sql'')])), Sleep 20,
        Http POST ''https://host/lakehouse/sessions/s2/statements''
          (Some (JObj [(''code'', JStr ''select 1''), (''kind'', JStr ''sql'')])), Sleep 30,
        Http POST ''https://host/lakehouse/sessions/s2/statements''
          (Some (JObj [(''code'', JStr ''select 1''), (''kind'', JStr ''sql'')]))] \<and>
     calls w' = 7)"
proof -
  have a: "\<exists>w'. submitLivyCode (env_of (errors_then_accepts 3)) ''select 1'' ''sql'' cursor0 world0
       = Some (Inr (200, Some (JObj [(''id'', JInt 0), (''state'', JStr ''waiting'')])), cursor0, w') \<and>
     trace w' =
       [Http POST ''https://host/lakehouse/sessions/s1/statements''
          (Some (JObj [(''code'', JStr ''select 1''), (''kind'', JStr ''sql'')])), Sleep 10,
        Http POST ''https://host/lakehouse/sessions/s1/statements''
          (Some (JObj [(''code'', JStr ''select 1''), (''kind'', JStr ''sql'')])), Sleep 20,
        Http POST ''https://host/lakehouse/sessions/s1/statements''
          (Some (JObj [(''code'', JStr ''select 1''), (''kind'', JStr ''sql'')])), Sleep 30,
        Http POST ''https://host/lakehouse/sessions/s1/statements''
          (Some (JObj [(''code'', JStr ''select 1''), (''kind'', JStr ''sql'')]))] \<and>
     calls w' = 4"
    using submit_three_errors [where env = "env_of (errors_then_accepts 3)" and w = world0
        and c = cursor0 and ?c1.0 = cursor0 and ?w1.0 = world0 and sid = "''s1''"
        and u = "''https://host/lakehouse/sessions/s1/statements''"
        and code = "''select 1''" and language = "''sql''"
        and body = "JObj [(''code'', JStr ''select 1''), (''kind'', JStr ''sql'')]"
        and st = 200 and j = "JObj [(''id'', JInt 0), (''state'', JStr ''waiting'')]"
        and v = "JStr ''waiting''"]
    by (simp add: tokens_granted_def env_of_def world0_def cursor0_def LivyCursor_def
        session0_def cred0_def answers_def errors_then_accepts_def error_reply_def
        waiting_reply_def)
  have pre: "is_new_session_required (heap flagged_world (livy_session cursor0)) \<and>
       (\<exists>conn. connect (env_of reconnects) (cursor_credential cursor0) flagged_world
                 = Some (Inr conn, reconnected_world)) \<and>
       cursor0\<lparr>cursor_session_id := Some ''s2''\<rparr>
         = cursor0\<lparr>cursor_session_id := session_id (heap reconnected_world (livy_session cursor0))\<rparr>"
    using reconnects_connect
    by (simp add: cursor0_def LivyCursor_def flagged_world_def world0_def reconnected_world_def)
  have b: "\<exists>w'. submitLivyCode (env_of reconnects) ''select 1'' ''sql'' cursor0 flagged_world
       = Some (Inr (200, Some (JObj [(''id'', JInt 0), (''state'', JStr ''waiting'')])),
               cursor0\<lparr>cursor_session_id := Some ''s2''\<rparr>, w') \<and>
     trace w' = trace reconnected_world @
       [Http POST ''https://host/lakehouse/sessions/s2/statements''
          (Some (JObj [(''code'', JStr ''select 1''), (''kind'', JStr ''sql'')])), Sleep 10,
        Http POST ''https://host/lakehouse/sessions/s2/statements''
          (Some (JObj [(''code'', JStr ''select 1''), (''kind'', JStr ''sql'')])), Sleep 20,
        Http POST ''https://host/lakehouse/sessions/s2/statements''
          (Some (JObj [(''code'', JStr ''select 1''), (''kind'', JStr ''sql'')])), Sleep 30,
        Http POST ''https://host/lakehouse/sessions/s2/statements''
          (Some (JObj [(''code'', JStr ''select 1''), (''kind'', JStr ''sql'')]))] \<and>
     calls w' = calls reconnected_world + 4"
    using submit_three_errors [where env = "env_of reconnects" and w = flagged_world
        and c = cursor0 and ?c1.0 = "cursor0\<lparr>cursor_session_id := Some ''s2''\<rparr>"
        and ?w1.0 = reconnected_world and sid = "''s2''"
        and u = "''https://host/lakehouse/sessions/s2/statements''"
        and code = "''select 1''" and language = "''sql''"
        and body = "JObj [(''code'', JStr ''select 1''), (''kind'', JStr ''sql'')]"
        and st = 200 and j = "JObj [(''id'', JInt 0), (''state'', JStr ''waiting'')]"
        and v = "JStr ''waiting''"] pre
    by (simp add: tokens_granted_def env_of_def cursor0_def LivyCursor_def cred0_def
        answers_def reconnects_def error_reply_def waiting_reply_def sessions0_def
        reconnected_world_def)
  show ?thesis
    using a b by (simp add: reconnected_world_def sessions0_def)
qed

text \<open>
  C6: when every statement-submission attempt returns top-level state \<^verbatim>\<open>error\<close>, the
  submit loop stops after its 5 retries (6 requests, with sleeps of 10 to 50 seconds in
  between) and returns the last errored response, the sixth, instead of raising.
\<close>

theorem submit_all_errors:
  assumes tok: "tokens_granted env"
    and flag: "\<not> is_new_session_required (heap w (livy_session c))"
    and u: "statements_url c = Inr u"
    and err: "\<forall>i<6. \<exists>st j.
        answers env (calls w + i) POST u (Some (statement_payload code language))
          (Response st (Some j)) \<and> getitem j ''state'' = Inr (JStr ''error'')"
  shows "\<exists>w' st j. submitLivyCode env code language c w = Some (Inr (st, Some j), c, w') \<and>
    answers env (calls w + 5) POST u (Some (statement_payload code language))
      (Response st (Some j)) \<and>
    getitem j ''state'' = Inr (JStr ''error'') \<and>
    trace w' = trace w @
      [Http POST u (Some (statement_payload code language)), Sleep 10,
       Http POST u (Some (statement_payload code language)), Sleep 20,
       Http POST u (Some (statement_payload code language)), Sleep 30,
       Http POST u (Some (statement_payload code language)), Sleep 40,
       Http POST u (Some (statement_payload code language)), Sleep 50,
       Http POST u (Some (statement_payload code language))] \<and>
    calls w' = calls w + 6"
proof -
  have "(5::nat) < 6" by simp
  with err have "\<exists>st j.
        answers env (calls w + 5) POST u (Some (statement_payload code language))
          (Response st (Some j)) \<and> getitem j ''state'' = Inr (JStr ''error'')"
    by blast
  then obtain st j where
    a: "answers env (calls w + 5) POST u (Some (statement_payload code language))
          (Response st (Some j))" and e: "getitem j ''state'' = Inr (JStr ''error'')"
    by blast
  have "\<exists>w'. while_True (submit_once env c (statement_payload code language)) (0, w)
          = Some (Inr (st, Some j), w')
       \<and> trace w' = trace w @ retry_events u (statement_payload code language) 0 5
       \<and> calls w' = calls w + 5 + 1
       \<and> heap w' = heap w \<and> livy_global_session w' = livy_global_session w"
    using err a e by (intro submit_loop[OF tok u, where v = "JStr ''error''"]) auto
  then show ?thesis using a e
    by (auto simp: submitLivyCode_loop[OF flag u] eval_nat_numeral)
qed

theorem submit_all_errors_witness:
  "\<exists>w'. submitLivyCode (env_of (errors_then_accepts 6)) ''select 1'' ''sql'' cursor0 world0
       = Some (Inr (200, Some (JObj [(''id'', JInt 0), (''state'', JStr ''error'')])), cursor0, w') \<and>
    trace w' =
      [Http POST ''https://host/lakehouse/sessions/s1/statements'' (Some (statement_payload ''select 1'' ''sql'')), Sleep 10,
       Http POST ''https://host/lakehouse/sessions/s1/statements'' (Some (statement_payload ''select 1'' ''sql'')), Sleep 20,
       Http POST ''https://host/lakehouse/sessions/s1/statements'' (Some (statement_payload ''select 1'' ''sql'')), Sleep 30,
       Http POST ''https://host/lakehouse/sessions/s1/statements'' (Some (statement_payload ''select 1'' ''sql'')), Sleep 40,
       Http POST ''https://host/lakehouse/sessions/s1/statements'' (Some (statement_payload ''select 1'' ''sql'')), Sleep 50,
       Http POST ''https://host/lakehouse/sessions/s1/statements'' (Some (statement_payload ''select 1'' ''sql''))] \<and>
    calls w' = 6"
  using submit_all_errors [of "env_of (errors_then_accepts 6)" world0 cursor0
      "''https://host/lakehouse/sessions/s1/statements''" "''select 1''" "''sql''"]
  by (simp add: tokens_granted_def env_of_def world0_def cursor0_def LivyCursor_def session0_def
      cred0_def statements_url_def session_url_def answers_def errors_then_accepts_def
      error_reply_def waiting_reply_def)

section \<open>The execute loop\<close>

lemma getitem_error: "getitem j k = Inl e \<Longrightarrow> e = KeyError \<or> e = TypeError"
  by (cases j) (auto split: option.splits)

lemma py_len_error: "py_len j = Inl e \<Longrightarrow> e = TypeError"
  by (cases j) auto

lemma output_field_error: "output_field j k = Inl e \<Longrightarrow> e = KeyError \<or> e = TypeError"
  by (auto simp: output_field_def split: sum.splits dest: getitem_error)

lemma poll_statement_available:
  "poll_statement env c ident s = Some (Inl (Inr res, w')) \<Longrightarrow>
   getitem res ''state'' = Inr (JStr ''available'')"
  by (auto simp: poll_statement_def split: sum.splits prod.splits if_splits)

lemma getLivyResult_available:
  assumes "getLivyResult env c r w = Some (Inr res, w')"
  shows "getitem res ''state'' = Inr (JStr ''available'')"
proof -
  from assms obtain ident where "while_True (poll_statement env c ident) w = Some (Inr res, w')"
    by (auto simp: getLivyResult_def split: sum.splits)
  then obtain s' where "poll_statement env c ident s' = Some (Inl (Inr res, w'))"
    by (blast dest: while_True_exit)
  then show ?thesis by (rule poll_statement_available)
qed

lemma any_pattern_in_text:
  "output_field res ''evalue'' = Inr (JStr ev) \<Longrightarrow>
   any_pattern_in ps res = Inr (\<exists>p\<in>set ps. is_substring p ev)"
  by (induction ps) (auto split: bool.splits)

lemma check_retry_transient:
  "output_field res ''status'' = Inr (JStr ''error'') \<Longrightarrow>
   output_field res ''evalue'' = Inr (JStr ev) \<Longrightarrow>
   check_retry_condition_when_execute res = Inr (\<exists>p\<in>set EXECUTE_RETRIES_PATTERNS. is_substring p ev)"
  by (simp add: check_retry_condition_when_execute_def any_pattern_in_text)

lemma execute_cycle_retry:
  assumes "submitLivyCode env fc language c w = Some (Inr r1, c1, w1)"
    and "getLivyResult env c1 r1 w1 = Some (Inr res, w2)"
    and "check_retry_condition_when_execute res = Inr True"
    and "rt < 5"
  shows "execute_cycle env fc language (rt, c, w)
           = Some (Inr (rt + 1, c1, sleep (rt * 10 + 10) w2))"
  using assms getLivyResult_available[OF assms(2)]
  by (simp add: execute_cycle_def DEFAULT_EXECUTE_RETRIES_TIME_def
      DEFAULT_EXECUTE_RETRIES_WAIT_def)

lemma execute_cycle_done:
  assumes "submitLivyCode env fc language c w = Some (Inr r1, c1, w1)"
    and "getLivyResult env c1 r1 w1 = Some (Inr res, w2)"
    and "check_retry_condition_when_execute res = Inr False"
  shows "execute_cycle env fc language (rt, c, w) = Some (Inl (Inr res, c1, w2))"
  using assms getLivyResult_available[OF assms(2)]
  by (simp add: execute_cycle_def)

lemma store_result_raises:
  assumes "store_result res c = (Inl (DbtDatabaseError m), c')"
  shows "rows c' = None \<and> schema c' = None \<and>
    (\<exists>ev. output_field res ''evalue'' = Inr (JStr ev) \<and> m = ''Error while executing query: '' @ ev)"
  using assms
  by (auto simp: store_result_def split: sum.splits if_splits json.splits
      dest: getitem_error output_field_error py_len_error)


section \<open>Running the concrete scenarios\<close>

lemma getLivySQL_select1: "getLivySQL ''select 1'' = ''select 1''"
  by code_simp

lemma final_code_select1: "final_code env ''select 1'' ''sql'' = ''select 1''"
  by (simp add: final_code_def getLivySQL_select1)

lemma cursor0_url: "statements_url cursor0 = Inr statements0"
  by (simp add: statements_url_def session_url_def cursor0_def LivyCursor_def world0_def
      session0_def cred0_def statements0_def)

lemma had_rows_url: "statements_url had_rows = Inr statements0"
  using cursor0_url by (simp add: statements_url_def had_rows_def)

lemma submit_accepted:
  assumes "accessToken w = Some token0" "\<not> is_new_session_required (heap w (livy_session c))"
    and "statements_url c = Inr statements0"
    and "srv (calls w) \<lparr>meth = POST, url = statements0, data = Some select1, hdrs = headers_of token0\<rparr> = waiting_reply"
  shows "submitLivyCode (env_of srv) ''select 1'' ''sql'' c w
     = Some (Inr (200, Some (JObj [(''id'', JInt 0), (''state'', JStr ''waiting'')])), c,
             w\<lparr>calls := calls w + 1, trace := trace w @ [Http POST statements0 (Some select1)],
               ticks := ticks w + 1\<rparr>)"
  unfolding submitLivyCode_def
  apply (subst while_True.simps)
  using assms
  apply (simp add: submit_once_def http_env_of select1_def waiting_reply_def
      check_retry_condition_when_submit_code_def)
  done

lemma poll_available:
  assumes "accessToken w = Some token0" and "statements_url c = Inr statements0"
    and "srv (calls w) \<lparr>meth = GET, url = statements0 @ ''/0'', data = None, hdrs = headers_of token0\<rparr>
           = result_reply out"
  shows "getLivyResult (env_of srv) c
           (200, Some (JObj [(''id'', JInt 0), (''state'', JStr ''waiting'')])) w
     = Some (Inr (JObj [(''id'', JInt 0), (''state'', JStr ''available''), (''output'', out)]),
             w\<lparr>calls := calls w + 1, trace := trace w @ [Http GET (statements0 @ ''/0'') None],
               ticks := ticks w + 1\<rparr>)"
  unfolding getLivyResult_def
  apply simp
  apply (subst while_True.simps)
  using assms
  apply (simp add: poll_statement_def http_env_of result_reply_def)
  apply (simp add: env_of_def digit_def)
  done

lemma plain_error_submit:
  "submitLivyCode (env_of fails_plainly) (final_code (env_of fails_plainly) ''select 1'' ''sql'')
      ''sql'' had_rows world0
   = Some (Inr (200, Some (JObj [(''id'', JInt 0), (''state'', JStr ''waiting'')])), had_rows,
           after_submit world0)"
  unfolding final_code_select1 after_submit_def
  by (rule submit_accepted)
    (simp_all add: world0_def session0_def fails_plainly_def had_rows_url)

lemma plain_error_poll:
  "getLivyResult (env_of fails_plainly) had_rows
      (200, Some (JObj [(''id'', JInt 0), (''state'', JStr ''waiting'')])) (after_submit world0)
   = Some (Inr (JObj [(''id'', JInt 0), (''state'', JStr ''available''), (''output'', plain_error)]),
           after_poll (after_submit world0))"
  unfolding after_poll_def
  by (rule poll_available)
    (simp_all add: world0_def fails_plainly_def after_submit_def had_rows_url)

lemma plain_error_loop:
  "while_True (execute_cycle (env_of fails_plainly)
       (final_code (env_of fails_plainly) ''select 1'' ''sql'') ''sql'') (0, had_rows, world0)
   = Some (Inr (JObj [(''id'', JInt 0), (''state'', JStr ''available''), (''output'', plain_error)]),
           had_rows, after_poll (after_submit world0))"
  by (subst while_True.simps, subst execute_cycle_done[OF plain_error_submit plain_error_poll])
    (simp_all add: check_retry_condition_when_execute_def output_field_def plain_error_def
      EXECUTE_RETRIES_PATTERNS_def)

lemma plain_error_execute:
  "execute (env_of fails_plainly) ''select 1'' ''sql'' [] had_rows world0
     = Some (Inl (DbtDatabaseError ''Error while executing query: Table not found''),
             had_rows\<lparr>rows := None, schema := None\<rparr>, after_poll (after_submit world0))"
  by (simp add: execute_def plain_error_loop store_result_def output_field_def plain_error_def)

lemma transient_submit:
  "accessToken w = Some token0 \<Longrightarrow> \<not> is_new_session_required (heap w 0) \<Longrightarrow>
   submitLivyCode (env_of transient_twice) ''select 1'' ''sql'' cursor0 w
   = Some (Inr (200, Some (JObj [(''id'', JInt 0), (''state'', JStr ''waiting'')])), cursor0,
           after_submit w)"
  using submit_accepted [where w = w and srv = transient_twice and c = cursor0] cursor0_url
  by (simp add: transient_twice_def after_submit_def cursor0_def LivyCursor_def)

lemma transient_poll:
  "accessToken w = Some token0 \<Longrightarrow>
   getLivyResult (env_of transient_twice) cursor0
      (200, Some (JObj [(''id'', JInt 0), (''state'', JStr ''waiting'')])) w
   = Some (Inr (JObj [(''id'', JInt 0), (''state'', JStr ''available''),
                      (''output'', if calls w < 4 then transient_error else ok_output)]),
           after_poll w)"
  using poll_available [where w = w and srv = transient_twice and c = cursor0
      and out = "if calls w < 4 then transient_error else ok_output"] cursor0_url
  by (simp add: transient_twice_def after_poll_def)


text \<open>
  C5: when a statement completes \<^verbatim>\<open>available\<close> with output status \<^verbatim>\<open>error\<close> and an error
  value that contains no retry pattern, the first pass of the loop of \<open>execute\<close> leaves
  the loop, so nothing is submitted or polled again: the world at the end is the world
  right after the first poll. \<open>execute\<close> raises the database error that carries the
  remote error value.
\<close>

theorem execute_plain_error_no_retry:
  assumes fmt: "(if length parameters > 0 then format env code parameters else Inr code) = Inr code1"
    and sub: "submitLivyCode env (final_code env code1 language) language c w = Some (Inr r1, c1, w1)"
    and poll: "getLivyResult env c1 r1 w1 = Some (Inr res, w2)"
    and st: "output_field res ''status'' = Inr (JStr ''error'')"
    and ev: "output_field res ''evalue'' = Inr (JStr ev)"
    and nomatch: "\<forall>p\<in>set EXECUTE_RETRIES_PATTERNS. \<not> is_substring p ev"
  shows "execute_cycle env (final_code env code1 language) language (0, c, w)
           = Some (Inl (Inr res, c1, w2)) \<and>
    execute env code language parameters c w
      = Some (Inl (DbtDatabaseError (''Error while executing query: '' @ ev)),
              c1\<lparr>rows := None, schema := None\<rparr>, w2)"
proof -
  have chk: "check_retry_condition_when_execute res = Inr False"
    using check_retry_transient[OF st ev] nomatch by simp
  have cyc: "execute_cycle env (final_code env code1 language) language (0, c, w)
           = Some (Inl (Inr res, c1, w2))"
    by (rule execute_cycle_done[OF sub poll chk])
  have lp: "while_True (execute_cycle env (final_code env code1 language) language) (0, c, w)
           = Some (Inr res, c1, w2)"
    by (subst while_True.simps) (simp add: cyc)
  have sr: "store_result res c1 = (Inl (DbtDatabaseError (''Error while executing query: '' @ ev)),
              c1\<lparr>rows := None, schema := None\<rparr>)"
    using st ev by (simp add: store_result_def)
  show ?thesis using cyc fmt lp sr by (simp add: execute_def)
qed

theorem execute_plain_error_no_retry_witness:
  "execute (env_of fails_plainly) ''select 1'' ''sql'' [] had_rows world0
     = Some (Inl (DbtDatabaseError ''Error while executing query: Table not found''),
             cursor0\<lparr>rows := None, schema := None\<rparr>,
             world0\<lparr>calls := 2,
               trace := [Http POST statements0 (Some select1), Http GET (statements0 @ ''/0'') None],
               ticks := 2\<rparr>)"
  using execute_plain_error_no_retry [of "[]" "env_of fails_plainly" "''select 1''" "''select 1''" "''sql''",
        OF _ plain_error_submit plain_error_poll, of "''Table not found''"]
  by (simp add: output_field_def plain_error_def EXECUTE_RETRIES_PATTERNS_def world0_def
      had_rows_def after_submit_def after_poll_def)


text \<open>
  C9: whenever the loop of \<open>execute\<close> has delivered a result and \<open>execute\<close> raises the
  database error, the rows and the schema of the cursor have been set to \<open>None\<close> before
  the error was raised, whatever an earlier statement had left there. Afterwards
  \<open>fetchone\<close> returns \<open>None\<close>, \<open>fetchall\<close> returns \<open>None\<close> and \<open>description\<close> is the empty
  list. The error carries the remote error value.
\<close>

theorem execute_error_clears_cursor:
  assumes fmt: "(if length parameters > 0 then format env code parameters else Inr code) = Inr code1"
    and loop: "while_True (execute_cycle env (final_code env code1 language) language) (0, c, w)
            = Some (Inr res, c1, w1)"
    and raised: "execute env code language parameters c w = Some (Inl (DbtDatabaseError m), c', w')"
  shows "rows c' = None \<and> schema c' = None \<and>
    fetchone c' = (Inr None, c') \<and> description c' = Inr [] \<and> fetchall c' = None \<and>
    (\<exists>ev. output_field res ''evalue'' = Inr (JStr ev) \<and> m = ''Error while executing query: '' @ ev)"
proof -
  from raised fmt loop have "store_result res c1 = (Inl (DbtDatabaseError m), c')"
    by (auto simp: execute_def split: prod.splits)
  from store_result_raises[OF this] show ?thesis
    by (auto simp: fetchone_def description_def fetchall_def)
qed

theorem execute_error_clears_cursor_witness:
  "fetchone had_rows = (Inr (Some (JArr [JInt 7])), had_rows\<lparr>rows := Some (JArr [])\<rparr>) \<and>
   execute (env_of fails_plainly) ''select 1'' ''sql'' [] had_rows world0
     = Some (Inl (DbtDatabaseError ''Error while executing query: Table not found''),
             had_rows\<lparr>rows := None, schema := None\<rparr>, after_poll (after_submit world0)) \<and>
   fetchone (had_rows\<lparr>rows := None, schema := None\<rparr>)
     = (Inr None, had_rows\<lparr>rows := None, schema := None\<rparr>) \<and>
   description (had_rows\<lparr>rows := None, schema := None\<rparr>) = Inr []"
  using execute_error_clears_cursor [of "[]" "env_of fails_plainly" "''select 1''" "''select 1''"
      "''sql''" had_rows world0, OF _ plain_error_loop plain_error_execute]
    plain_error_execute
  by (simp add: fetchone_def had_rows_def)


text \<open>
  C4: if the polled result of the first two passes is \<^verbatim>\<open>available\<close> with output status
  \<^verbatim>\<open>error\<close> and an error value that contains a retry pattern, and the result of the third
  pass has status \<^verbatim>\<open>ok\<close>, then the loop body of \<open>execute\<close>, one submit and one poll, runs
  exactly three times: the first two passes sleep (10, then 20 seconds) and go round,
  the third leaves the loop, and \<open>execute\<close> stores the third result.
\<close>

theorem execute_transient_twice:
  assumes fmt: "(if length parameters > 0 then format env code parameters else Inr code) = Inr code1"
    and fc: "fc = final_code env code1 language"
    and sub1: "submitLivyCode env fc language c w = Some (Inr r1, c1, w1)"
    and poll1: "getLivyResult env c1 r1 w1 = Some (Inr res1, w1')"
    and st1: "output_field res1 ''status'' = Inr (JStr ''error'')"
    and ev1: "output_field res1 ''evalue'' = Inr (JStr ev1)"
    and m1: "\<exists>p\<in>set EXECUTE_RETRIES_PATTERNS. is_substring p ev1"
    and sub2: "submitLivyCode env fc language c1 (sleep 10 w1') = Some (Inr r2, c2, w2)"
    and poll2: "getLivyResult env c2 r2 w2 = Some (Inr res2, w2')"
    and st2: "output_field res2 ''status'' = Inr (JStr ''error'')"
    and ev2: "output_field res2 ''evalue'' = Inr (JStr ev2)"
    and m2: "\<exists>p\<in>set EXECUTE_RETRIES_PATTERNS. is_substring p ev2"
    and sub3: "submitLivyCode env fc language c2 (sleep 20 w2') = Some (Inr r3, c3, w3)"
    and poll3: "getLivyResult env c3 r3 w3 = Some (Inr res3, w3')"
    and st3: "output_field res3 ''status'' = Inr (JStr ''ok'')"
  shows "execute_cycle env fc language (0, c, w) = Some (Inr (1, c1, sleep 10 w1')) \<and>
    execute_cycle env fc language (1, c1, sleep 10 w1') = Some (Inr (2, c2, sleep 20 w2')) \<and>
    execute_cycle env fc language (2, c2, sleep 20 w2') = Some (Inl (Inr res3, c3, w3')) \<and>
    execute env code language parameters c w
      = Some (fst (store_result res3 c3), snd (store_result res3 c3), w3')"
proof -
  have k1: "check_retry_condition_when_execute res1 = Inr True"
    using check_retry_transient[OF st1 ev1] m1 by simp
  have k2: "check_retry_condition_when_execute res2 = Inr True"
    using check_retry_transient[OF st2 ev2] m2 by simp
  have k3: "check_retry_condition_when_execute res3 = Inr False"
    using st3 by (simp add: check_retry_condition_when_execute_def)
  have y1: "execute_cycle env fc language (0, c, w) = Some (Inr (1, c1, sleep 10 w1'))"
    using execute_cycle_retry[OF sub1 poll1 k1, of 0] by simp
  have y2: "execute_cycle env fc language (1, c1, sleep 10 w1') = Some (Inr (2, c2, sleep 20 w2'))"
    using execute_cycle_retry[OF sub2 poll2 k2, of 1] by simp
  have y3: "execute_cycle env fc language (2, c2, sleep 20 w2') = Some (Inl (Inr res3, c3, w3'))"
    by (rule execute_cycle_done[OF sub3 poll3 k3])
  have l3: "while_True (execute_cycle env fc language) (2, c2, sleep 20 w2')
             = Some (Inr res3, c3, w3')"
    by (subst while_True.simps, subst y3, simp only: option.case sum.case)
  have l2: "while_True (execute_cycle env fc language) (1, c1, sleep 10 w1')
             = Some (Inr res3, c3, w3')"
    by (subst while_True.simps, subst y2, simp only: option.case sum.case l3)
  have lp: "while_True (execute_cycle env fc language) (0, c, w) = Some (Inr res3, c3, w3')"
    by (subst while_True.simps, subst y1, simp only: option.case sum.case l2)
  show ?thesis using y1 y2 y3 lp fmt fc by (simp add: execute_def split: prod.splits)
qed

theorem execute_transient_twice_witness:
  "execute (env_of transient_twice) ''select 1'' ''sql'' [] cursor0 world0
     = Some (Inr (),
             cursor0\<lparr>rows := Some (JArr [JArr [JInt 1]]),
                     schema := Some (JArr [JObj [(''name'', JStr ''a''), (''type'', JStr ''int''),
                                                 (''nullable'', JBool True)]])\<rparr>,
             world0\<lparr>calls := 6,
               trace := [Http POST statements0 (Some select1), Http GET (statements0 @ ''/0'') None,
                         Sleep 10,
                         Http POST statements0 (Some select1), Http GET (statements0 @ ''/0'') None,
                         Sleep 20,
                         Http POST statements0 (Some select1), Http GET (statements0 @ ''/0'') None],
               ticks := 6\<rparr>)"
proof -
  let ?E = "env_of transient_twice"
  let ?w1 = "after_submit world0"
  let ?w1' = "after_poll ?w1"
  let ?w2 = "after_submit (sleep 10 ?w1')"
  let ?w2' = "after_poll ?w2"
  let ?w3 = "after_submit (sleep 20 ?w2')"
  let ?w3' = "after_poll ?w3"
  have s1: "submitLivyCode ?E ''select 1'' ''sql'' cursor0 world0 = Some (Inr (200, Some (JObj [(''id'', JInt 0), (''state'', JStr ''waiting'')])), cursor0, ?w1)"
    by (rule transient_submit) (simp_all add: world0_def session0_def)
  have p1: "getLivyResult ?E cursor0 (200, Some (JObj [(''id'', JInt 0), (''state'', JStr ''waiting'')])) ?w1
     = Some (Inr (JObj [(''id'', JInt 0), (''state'', JStr ''available''), (''output'', transient_error)]), ?w1')"
    using transient_poll [of ?w1] by (simp add: world0_def after_submit_def)
  have s2: "submitLivyCode ?E ''select 1'' ''sql'' cursor0 (sleep 10 ?w1') = Some (Inr (200, Some (JObj [(''id'', JInt 0), (''state'', JStr ''waiting'')])), cursor0, ?w2)"
    by (rule transient_submit) (simp_all add: world0_def session0_def after_submit_def after_poll_def sleep_def)
  have p2: "getLivyResult ?E cursor0 (200, Some (JObj [(''id'', JInt 0), (''state'', JStr ''waiting'')])) ?w2
     = Some (Inr (JObj [(''id'', JInt 0), (''state'', JStr ''available''), (''output'', transient_error)]), ?w2')"
    using transient_poll [of ?w2] by (simp add: world0_def after_submit_def after_poll_def sleep_def)
  have s3: "submitLivyCode ?E ''select 1'' ''sql'' cursor0 (sleep 20 ?w2') = Some (Inr (200, Some (JObj [(''id'', JInt 0), (''state'', JStr ''waiting'')])), cursor0, ?w3)"
    by (rule transient_submit) (simp_all add: world0_def session0_def after_submit_def after_poll_def sleep_def)
  have p3: "getLivyResult ?E cursor0 (200, Some (JObj [(''id'', JInt 0), (''state'', JStr ''waiting'')])) ?w3
     = Some (Inr (JObj [(''id'', JInt 0), (''state'', JStr ''available''), (''output'', ok_output)]), ?w3')"
    using transient_poll [of ?w3] by (simp add: world0_def after_submit_def after_poll_def sleep_def)
  have pat: "is_substring ''Request failed: HTTP/1.1 403 Forbidden ClientRequestId''
      ''Request failed: HTTP/1.1 403 Forbidden ClientRequestId: 42''"
    by code_simp
  show ?thesis
    using execute_transient_twice [of "[]" ?E "''select 1''" "''select 1''" "''select 1''" "''sql''",
        OF _ _ s1 p1 _ _ _ s2 p2 _ _ _ s3 p3,
        of "''Request failed: HTTP/1.1 403 Forbidden ClientRequestId: 42''"
           "''Request failed: HTTP/1.1 403 Forbidden ClientRequestId: 42''"] pat
    by (simp add: final_code_select1 output_field_def transient_error_def ok_output_def
        EXECUTE_RETRIES_PATTERNS_def store_result_def world0_def after_submit_def after_poll_def
        sleep_def)
qed


text \<open>
  C1 (as claimed: a connection error, an HTTP status error and a timeout of the
  session-creation POST are all treated as no response and raise the fatal error,
  without parsing a session id from the failed response). The handlers of the first
  \<^verbatim>\<open>try\<close> block do catch \<open>HTTPError\<close>, but \<^verbatim>\<open>raise_for_status\<close> raises it after \<open>response\<close>
  has been bound, so \<^verbatim>\<open>response is None\<close> is false and the code goes on to parse the
  failed response. For a POST answered with HTTP 500 and a body that is not JSON,
  \<open>create_session\<close> raises the JSON error of the id parsing; answered with HTTP 500 and
  a JSON body that has an id, it takes that id, polls and returns it as a created
  session. For a refused connection it raises the fatal error, as claimed.
\<close>

theorem create_session_http_status_error:
  "raise_for_status 500 = Some HTTPError \<and>
   post_session (env_of rejects_session) 0 (session_payload cred0) world0
     = (Inr (Some (500, None)), after_post_session) \<and>
   create_session (env_of rejects_session) 0 (session_payload cred0) world0
     = Some (Inl (Exception ''Json decode error to get session_id''),
             set_session_id 0 None after_post_session) \<and>
   create_session (env_of rejects_with_id) 0 (session_payload cred0) world0
     = Some (Inr (Some ''7''),
             set_is_new_session_required 0 False
               ((set_session_id 0 (Some ''7'') after_post_session)
                  \<lparr>calls := 2,
                   trace := [Http POST sessions0 (Some (session_payload cred0)),
                             Http GET (sessions0 @ ''/7'') None],
                   ticks := 2\<rparr>)) \<and>
   create_session (env_of no_service) 0 (session_payload cred0) world0
     = Some (Inl (Exception ''Invalid response from livy server''), after_post_session)"
proof -
  have tok: "accessToken world0 = Some token0" by (simp add: world0_def)
  have p1: "post_session (env_of rejects_session) 0 (session_payload cred0) world0
     = (Inr (Some (500, None)), after_post_session)"
    by (simp add: post_session_def http_env_of rejects_session_def raise_for_status_def
        after_post_session_def sessions0_def world0_def session0_def)
  have p2: "post_session (env_of rejects_with_id) 0 (session_payload cred0) world0
     = (Inr (Some (500, Some (JObj [(''id'', JInt 7)]))), after_post_session)"
    by (simp add: post_session_def http_env_of rejects_with_id_def raise_for_status_def
        after_post_session_def sessions0_def world0_def session0_def)
  have p3: "post_session (env_of no_service) 0 (session_payload cred0) world0
     = (Inr None, after_post_session)"
    by (simp add: post_session_def http_env_of no_service_def
        after_post_session_def sessions0_def world0_def session0_def)
  have c1: "create_session (env_of rejects_session) 0 (session_payload cred0) world0
     = Some (Inl (Exception ''Json decode error to get session_id''),
             set_session_id 0 None after_post_session)"
    by (simp add: create_session_def p1)
  have c3: "create_session (env_of no_service) 0 (session_payload cred0) world0
     = Some (Inl (Exception ''Invalid response from livy server''), after_post_session)"
    by (simp add: create_session_def p3)
  have s7: "py_str (env_of rejects_with_id) (JInt 7) = ''7''"
    by (simp add: env_of_def digit_def)
  have w: "while_True (wait_for_started (env_of rejects_with_id) 0)
             (set_session_id 0 (Some ''7'') after_post_session)
     = Some (Inr (), set_is_new_session_required 0 False
               ((set_session_id 0 (Some ''7'') after_post_session)
                  \<lparr>calls := 2,
                   trace := [Http POST sessions0 (Some (session_payload cred0)),
                             Http GET (sessions0 @ ''/7'') None],
                   ticks := 2\<rparr>))"
    apply (subst while_True.simps)
    apply (simp add: wait_for_started_def get_session_def http_env_of set_session_id_def
        after_post_session_def world0_def session0_def session_url_def rejects_with_id_def
        idle_reply_def currentState_def sessions0_def set_is_new_session_required_def)
    done
  have c2: "create_session (env_of rejects_with_id) 0 (session_payload cred0) world0
     = Some (Inr (Some ''7''),
             set_is_new_session_required 0 False
               ((set_session_id 0 (Some ''7'') after_post_session)
                  \<lparr>calls := 2,
                   trace := [Http POST sessions0 (Some (session_payload cred0)),
                             Http GET (sessions0 @ ''/7'') None],
                   ticks := 2\<rparr>))"
    by (simp add: create_session_def p2 s7 w)
      (simp add: set_is_new_session_required_def set_session_id_def)
  show ?thesis using p1 c1 c2 c3 by (simp add: raise_for_status_def)
qed

section \<open>Session discovery\<close>

lemma http_heap: "heap (snd (http env cr tp m u d w)) = heap w"
proof -
  have "heap (snd (get_headers env cr tp w)) = heap w"
    using after_headers_frame(3)[of env cr w]
    by (simp add: after_headers_def get_headers_tokenPrint[of env cr tp w])
  then show ?thesis
    by (auto simp: http_def split: prod.splits sum.splits)
qed

lemma wait_for_idle_exit:
  "wait_for_idle env self x s' = Some (Inl (Inr u, w1)) \<Longrightarrow>
   session_id (heap w1 self) = ident_of x \<and> ident_of x \<noteq> None"
  by (auto simp: wait_for_idle_def set_session_id_def ident_of_def
      split: sum.splits json.splits prod.splits if_splits)

lemma wait_loop_exit:
  assumes "while_True (wait_for_idle env self x) w = Some (Inr u, w1)"
  shows "session_id (heap w1 self) = ident_of x \<and> ident_of x \<noteq> None"
proof -
  from assms obtain s' where "wait_for_idle env self x s' = Some (Inl (Inr u, w1))"
    by (blast dest: while_True_exit)
  then show ?thesis by (rule wait_for_idle_exit)
qed

lemma last_eligible_Cons:
  "last_eligible name (x # ss) previous =
     last_eligible name ss (if eligible name x then ident_of x else previous)"
  by (auto simp: last_eligible_def split: list.splits)

lemma scan_sessions_result:
  "scan_sessions env self name ss w = Some (Inr u, w') \<Longrightarrow>
   session_id (heap w' self) = last_eligible name ss (session_id (heap w self))"
proof (induction ss arbitrary: w)
  case Nil
  then show ?case by (simp add: last_eligible_def)
next
  case (Cons x ss)
  show ?case
  proof (cases "eligible name x")
    case True
    then obtain ls where n: "getitem x ''name'' = Inr (JStr name)"
      and l: "getitem x ''livyState'' = Inr ls" and v: "ls \<notin> set invalid_states"
      by (auto simp: eligible_def split: sum.splits)
    from Cons.prems n l v obtain w1 u1 where
      lp: "while_True (wait_for_idle env self x) w = Some (Inr u1, w1)"
      and rest: "scan_sessions env self name ss w1 = Some (Inr u, w')"
      by (auto split: option.splits sum.splits prod.splits)
    from wait_loop_exit[OF lp] have "session_id (heap w1 self) = ident_of x" by simp
    with Cons.IH[OF rest] True show ?thesis by (simp add: last_eligible_Cons)
  next
    case False
    with Cons.prems have rest: "scan_sessions env self name ss w = Some (Inr u, w')"
      by (auto simp: eligible_def split: sum.splits if_splits)
    with Cons.IH[OF rest] False show ?thesis by (simp add: last_eligible_Cons)
  qed
qed

lemma last_eligible_cases:
  "(case filter (eligible name) ss of
      [] \<Rightarrow> last_eligible name ss previous = previous
    | m # ms \<Rightarrow>
        last_eligible name ss previous = ident_of (last (m # ms)) \<and>
        last (m # ms) \<in> set ss \<and>
        getitem (last (m # ms)) ''name'' = Inr (JStr name) \<and>
        (\<exists>ls. getitem (last (m # ms)) ''livyState'' = Inr ls \<and> ls \<notin> set invalid_states))"
proof (cases "filter (eligible name) ss")
  case Nil
  then show ?thesis by (simp add: last_eligible_def)
next
  case (Cons m ms)
  then have "last (m # ms) \<in> set (filter (eligible name) ss)"
    by (metis last_in_set list.distinct(1))
  then have "last (m # ms) \<in> set ss" "eligible name (last (m # ms))" by auto
  then show ?thesis using Cons
    by (auto simp: last_eligible_def eligible_def split: sum.splits)
qed

lemma scan_sessions_idents:
  "scan_sessions env self name ss w = Some (Inr u, w') \<Longrightarrow>
   \<forall>s\<in>set ss. eligible name s \<longrightarrow> ident_of s \<noteq> None"
proof (induction ss arbitrary: w)
  case Nil
  then show ?case by simp
next
  case (Cons x ss)
  show ?case
  proof (cases "eligible name x")
    case True
    then obtain ls where n: "getitem x ''name'' = Inr (JStr name)"
      and l: "getitem x ''livyState'' = Inr ls" and v: "ls \<notin> set invalid_states"
      by (auto simp: eligible_def split: sum.splits)
    from Cons.prems n l v obtain w1 u1 where
      lp: "while_True (wait_for_idle env self x) w = Some (Inr u1, w1)"
      and rest: "scan_sessions env self name ss w1 = Some (Inr u, w')"
      by (auto split: option.splits sum.splits prod.splits)
    from wait_loop_exit[OF lp] have "ident_of x \<noteq> None" by simp
    with Cons.IH[OF rest] show ?thesis by simp
  next
    case False
    with Cons.prems have rest: "scan_sessions env self name ss w = Some (Inr u, w')"
      by (auto simp: eligible_def split: sum.splits if_splits)
    with Cons.IH[OF rest] False show ?thesis by simp
  qed
qed

lemma get_exist_session_run:
  assumes name: "livy_session_name (credential (heap w self)) = Some name"
    and run: "get_exist_session env self w = Some (Inr r, w')"
  shows "\<exists>ss u. listing env self w = Inr ss \<and> r = session_id (heap w' self) \<and>
     scan_sessions env self name ss
       (snd (http env (credential (heap w self)) True GET
               (connect_url (heap w self) @ ''/sessions'') None w)) = Some (Inr u, w')"
proof -
  let ?h = "http env (credential (heap w self)) True GET (connect_url (heap w self) @ ''/sessions'') None w"
  from run name obtain res items ss u where
    j: "json_of (fst ?h) = Inr res" and i: "getitem res ''items'' = Inr items"
    and p: "py_iter items = Inr ss"
    and sc: "scan_sessions env self name ss (snd ?h) = Some (Inr u, w')"
    and r: "r = session_id (heap w' self)"
    by (auto simp: get_exist_session_def split: prod.splits sum.splits option.splits)
  have "listing env self w = Inr ss" using j i p by (simp add: listing_def)
  with sc r show ?thesis by blast
qed

lemma wait_for_idle_idle:
  assumes tok: "tokens_granted env"
    and idle: "answers_idle env (connect_url (heap w self)) (calls w)"
    and i: "getitem x ''id'' = Inr (JStr i)"
  shows "\<exists>w1. wait_for_idle env self x w = Some (Inl (Inr (), w1)) \<and> calls w1 = calls w + 1 \<and>
           connect_url (heap w1 self) = connect_url (heap w self) \<and>
           trace w1 = trace w @ [Http GET (connect_url (heap w self) @ ''/sessions/'' @ i) None]"
proof -
  from idle obtain st j sv where
    a: "server env (calls w)
          \<lparr>meth = GET, url = connect_url (heap w self) @ ''/sessions/'' @ i, data = None,
           hdrs = bearer env (credential (heap w self)) w\<rparr> = Response st (Some j)"
    and s: "getitem j ''state'' = Inr sv" "sv \<noteq> JStr ''starting''" "sv \<noteq> JStr ''not_started''"
    and c: "currentState j = Inr (JStr ''idle'')"
    unfolding answers_idle_def by blast
  show ?thesis
    using a s c i
    by (simp add: wait_for_idle_def http_granted[OF tok] set_session_id_def)
qed

lemma poll_events_Cons:
  "poll_events base (x # ss) =
     (case ident_of x of None \<Rightarrow> [] | Some i \<Rightarrow> [Http GET (base @ ''/sessions/'' @ i) None])
     @ poll_events base ss"
  by (simp add: poll_events_def)

lemma scan_sessions_idle:
  assumes tok: "tokens_granted env"
  shows "\<forall>s\<in>set ss. well_formed s \<Longrightarrow>
    \<forall>k\<ge>calls w. answers_idle env (connect_url (heap w self)) k \<Longrightarrow>
    \<exists>w'. scan_sessions env self name ss w = Some (Inr (), w') \<and>
      trace w' = trace w @ poll_events (connect_url (heap w self)) (filter (eligible name) ss)"
proof (induction ss arbitrary: w)
  case Nil
  then show ?case by (simp add: poll_events_def)
next
  case (Cons x ss)
  from Cons.prems(1) obtain n ls i where
    n: "getitem x ''name'' = Inr n" and l: "getitem x ''livyState'' = Inr ls"
    and i: "getitem x ''id'' = Inr (JStr i)"
    by (auto simp: well_formed_def split: sum.splits json.splits)
  have wf: "\<forall>s\<in>set ss. well_formed s" using Cons.prems(1) by simp
  show ?case
  proof (cases "n = JStr name \<and> ls \<notin> set invalid_states")
    case False
    then have ne: "\<not> eligible name x" using n l by (auto simp: eligible_def)
    from Cons.IH[OF wf Cons.prems(2)] obtain w' where
      "scan_sessions env self name ss w = Some (Inr (), w')"
      "trace w' = trace w @ poll_events (connect_url (heap w self)) (filter (eligible name) ss)"
      by blast
    with False n l ne show ?thesis by auto
  next
    case True
    then have el: "eligible name x" using n l by (auto simp: eligible_def)
    have idle: "answers_idle env (connect_url (heap w self)) (calls w)"
      using Cons.prems(2) by simp
    from wait_for_idle_idle[OF tok idle i] obtain w1 where
      st: "wait_for_idle env self x w = Some (Inl (Inr (), w1))"
      and c1: "calls w1 = calls w + 1"
      and u1: "connect_url (heap w1 self) = connect_url (heap w self)"
      and t1: "trace w1 = trace w @ [Http GET (connect_url (heap w self) @ ''/sessions/'' @ i) None]"
      by blast
    have lp: "while_True (wait_for_idle env self x) w = Some (Inr (), w1)"
      by (subst while_True.simps) (simp add: st)
    have "\<forall>k\<ge>calls w1. answers_idle env (connect_url (heap w1 self)) k"
      using Cons.prems(2) c1 u1 by simp
    from Cons.IH[OF wf this] obtain w' where
      sc: "scan_sessions env self name ss w1 = Some (Inr (), w')"
      and t2: "trace w' = trace w1 @ poll_events (connect_url (heap w1 self)) (filter (eligible name) ss)"
      by blast
    have id: "ident_of x = Some i" using i by (simp add: ident_of_def)
    have "scan_sessions env self name (x # ss) w = Some (Inr (), w')"
      using True n l lp sc by auto
    moreover have "trace w' = trace w @ poll_events (connect_url (heap w self)) (filter (eligible name) (x # ss))"
      using t1 t2 u1 el id by (simp add: poll_events_Cons)
    ultimately show ?thesis by blast
  qed
qed

lemma get_exist_session_idle:
  assumes name: "livy_session_name (credential (heap w self)) = Some name"
    and tok: "tokens_granted env"
    and ls: "listing env self w = Inr ss"
    and wf: "\<forall>s\<in>set ss. well_formed s"
    and idle: "\<forall>k>calls w. answers_idle env (connect_url (heap w self)) k"
  shows "\<exists>w'. get_exist_session env self w
            = Some (Inr (last_eligible name ss (session_id (heap w self))), w') \<and>
          trace w' = trace w @ Http GET (connect_url (heap w self) @ ''/sessions'') None #
            poll_events (connect_url (heap w self)) (filter (eligible name) ss)"
proof -
  let ?h = "http env (credential (heap w self)) True GET (connect_url (heap w self) @ ''/sessions'') None w"
  from ls obtain res items where
    j: "json_of (fst ?h) = Inr res" and i: "getitem res ''items'' = Inr items"
    and p: "py_iter items = Inr ss"
    by (auto simp: listing_def split: sum.splits)
  have c: "calls (snd ?h) = calls w + 1" by (simp add: http_granted[OF tok])
  have t: "trace (snd ?h) = trace w @ [Http GET (connect_url (heap w self) @ ''/sessions'') None]"
    by (simp add: http_granted[OF tok])
  have h: "heap (snd ?h) = heap w" by (rule http_heap)
  have "\<forall>k\<ge>calls (snd ?h). answers_idle env (connect_url (heap (snd ?h) self)) k"
    using idle c h by simp
  from scan_sessions_idle[OF tok wf this] obtain w' where
    sc: "scan_sessions env self name ss (snd ?h) = Some (Inr (), w')"
    and tr: "trace w' = trace (snd ?h) @
       poll_events (connect_url (heap (snd ?h) self)) (filter (eligible name) ss)"
    by blast
  have r: "session_id (heap w' self) = last_eligible name ss (session_id (heap w self))"
    using scan_sessions_result[OF sc] h by simp
  have "get_exist_session env self w
            = Some (Inr (last_eligible name ss (session_id (heap w self))), w')"
    using name j i p sc r by (auto simp: get_exist_session_def split: prod.splits)
  moreover have "trace w' = trace w @ Http GET (connect_url (heap w self) @ ''/sessions'') None #
            poll_events (connect_url (heap w self)) (filter (eligible name) ss)"
    using tr t h by simp
  ultimately show ?thesis by blast
qed

lemma while_True_invariant:
  "while_True body s = Some r \<Longrightarrow> I s \<Longrightarrow>
   (\<forall>s s'. I s \<longrightarrow> body s = Some (Inr s') \<longrightarrow> I s') \<Longrightarrow>
   \<exists>s'. I s' \<and> body s' = Some (Inl r)"
proof (induction rule: while_True.raw_induct[rotated 1, consumes 1])
  case (1 while_True body s r)
  show ?case
  proof (cases "body s")
    case None
    with 1(2) show ?thesis by simp
  next
    case (Some a)
    show ?thesis
    proof (cases a)
      case (Inl x)
      with Some 1(2) have "x = r" by simp
      with Some Inl 1(3) show ?thesis by blast
    next
      case (Inr s1)
      with Some 1(2) have run: "while_True body s1 = Some r" by simp
      from 1(3,4) Some Inr have "I s1" by blast
      from 1(1)[OF run this 1(4)] show ?thesis .
    qed
  qed
qed

lemma wait_for_idle_round:
  assumes tok: "tokens_granted env"
    and st: "wait_for_idle env self x w = Some (Inr w1)"
  shows "\<exists>i evs. getitem x ''id'' = Inr (JStr i) \<and>
           trace w1 = trace w @ evs \<and>
           list_all (\<lambda>e. e = Http GET (connect_url (heap w self) @ ''/sessions/'' @ i) None
                        \<or> e = Sleep DEFAULT_POLL_WAIT) evs \<and>
           connect_url (heap w1 self) = connect_url (heap w self)"
  using st
  by (auto simp: wait_for_idle_def http_granted[OF tok]
      split: sum.splits json.splits prod.splits if_splits)

lemma wait_for_idle_leave:
  assumes tok: "tokens_granted env"
    and st: "wait_for_idle env self x w = Some (Inl (Inr u, w1))"
  shows "\<exists>i. getitem x ''id'' = Inr (JStr i) \<and>
           trace w1 = trace w @ [Http GET (connect_url (heap w self) @ ''/sessions/'' @ i) None] \<and>
           connect_url (heap w1 self) = connect_url (heap w self)"
  using st
  by (auto simp: wait_for_idle_def http_granted[OF tok] set_session_id_def
      split: sum.splits json.splits prod.splits if_splits)

lemma wait_loop_trace:
  assumes tok: "tokens_granted env"
    and lp: "while_True (wait_for_idle env self x) w = Some (Inr u, w1)"
  shows "\<exists>seg. trace w1 = trace w @ seg \<and> poll_run (connect_url (heap w self)) x seg \<and>
           connect_url (heap w1 self) = connect_url (heap w self)"
proof -
  let ?b = "connect_url (heap w self)"
  let ?I = "\<lambda>s. \<exists>evs. trace s = trace w @ evs \<and>
       (\<forall>i. getitem x ''id'' = Inr (JStr i) \<longrightarrow>
          list_all (\<lambda>e. e = Http GET (?b @ ''/sessions/'' @ i) None \<or> e = Sleep DEFAULT_POLL_WAIT) evs) \<and>
       connect_url (heap s self) = ?b"
  have i0: "?I w" by simp
  have step: "\<forall>s s'. ?I s \<longrightarrow> wait_for_idle env self x s = Some (Inr s') \<longrightarrow> ?I s'"
  proof (intro allI impI)
    fix s s' assume a: "?I s" and b: "wait_for_idle env self x s = Some (Inr s')"
    from a obtain evs where e: "trace s = trace w @ evs"
      "\<forall>i. getitem x ''id'' = Inr (JStr i) \<longrightarrow>
          list_all (\<lambda>e. e = Http GET (?b @ ''/sessions/'' @ i) None \<or> e = Sleep DEFAULT_POLL_WAIT) evs"
      "connect_url (heap s self) = ?b" by blast
    from wait_for_idle_round[OF tok b] obtain i evs1 where r:
      "getitem x ''id'' = Inr (JStr i)" "trace s' = trace s @ evs1"
      "list_all (\<lambda>e. e = Http GET (connect_url (heap s self) @ ''/sessions/'' @ i) None
                        \<or> e = Sleep DEFAULT_POLL_WAIT) evs1"
      "connect_url (heap s' self) = connect_url (heap s self)" by blast
    have "trace s' = trace w @ (evs @ evs1)" using e(1) r(2) by simp
    moreover have "\<forall>i. getitem x ''id'' = Inr (JStr i) \<longrightarrow>
          list_all (\<lambda>e. e = Http GET (?b @ ''/sessions/'' @ i) None \<or> e = Sleep DEFAULT_POLL_WAIT)
            (evs @ evs1)"
      using e(2,3) r(1,3) by simp
    moreover have "connect_url (heap s' self) = ?b" using e(3) r(4) by simp
    ultimately show "?I s'" by blast
  qed
  from while_True_invariant[OF lp, of ?I, OF i0 step] obtain s evs where
    e: "trace s = trace w @ evs"
      "\<forall>i. getitem x ''id'' = Inr (JStr i) \<longrightarrow>
          list_all (\<lambda>e. e = Http GET (?b @ ''/sessions/'' @ i) None \<or> e = Sleep DEFAULT_POLL_WAIT) evs"
      "connect_url (heap s self) = ?b"
    and x: "wait_for_idle env self x s = Some (Inl (Inr u, w1))" by blast
  from wait_for_idle_leave[OF tok x] obtain i where l:
    "getitem x ''id'' = Inr (JStr i)"
    "trace w1 = trace s @ [Http GET (connect_url (heap s self) @ ''/sessions/'' @ i) None]"
    "connect_url (heap w1 self) = connect_url (heap s self)" by blast
  have "trace w1 = trace w @ (evs @ [Http GET (?b @ ''/sessions/'' @ i) None])"
    using e(1,3) l(2) by simp
  moreover have "poll_run ?b x (evs @ [Http GET (?b @ ''/sessions/'' @ i) None])"
    using e(2) l(1) by (simp add: poll_run_def ident_of_def)
  moreover have "connect_url (heap w1 self) = ?b" using e(3) l(3) by simp
  ultimately show ?thesis by blast
qed

lemma scan_sessions_trace:
  assumes tok: "tokens_granted env"
  shows "scan_sessions env self name ss w = Some (Inr u, w') \<Longrightarrow>
    \<exists>segs. list_all2 (poll_run (connect_url (heap w self))) (filter (eligible name) ss) segs \<and>
       trace w' = trace w @ concat segs"
proof (induction ss arbitrary: w)
  case Nil
  then show ?case by simp
next
  case (Cons x ss)
  show ?case
  proof (cases "eligible name x")
    case True
    then obtain ls where n: "getitem x ''name'' = Inr (JStr name)"
      and l: "getitem x ''livyState'' = Inr ls" and v: "ls \<notin> set invalid_states"
      by (auto simp: eligible_def split: sum.splits)
    from Cons.prems n l v obtain w1 u1 where
      lp: "while_True (wait_for_idle env self x) w = Some (Inr u1, w1)"
      and rest: "scan_sessions env self name ss w1 = Some (Inr u, w')"
      by (auto split: option.splits sum.splits prod.splits)
    from wait_loop_trace[OF tok lp] obtain seg where s:
      "trace w1 = trace w @ seg" "poll_run (connect_url (heap w self)) x seg"
      "connect_url (heap w1 self) = connect_url (heap w self)" by blast
    from Cons.IH[OF rest] obtain segs where r:
      "list_all2 (poll_run (connect_url (heap w1 self))) (filter (eligible name) ss) segs"
      "trace w' = trace w1 @ concat segs" by blast
    have "list_all2 (poll_run (connect_url (heap w self))) (filter (eligible name) (x # ss)) (seg # segs)"
      using True s(2,3) r(1) by simp
    moreover have "trace w' = trace w @ concat (seg # segs)"
      using s(1) r(2) by simp
    ultimately show ?thesis by blast
  next
    case False
    with Cons.prems have rest: "scan_sessions env self name ss w = Some (Inr u, w')"
      by (auto simp: eligible_def split: sum.splits if_splits)
    with Cons.IH[OF rest] False show ?thesis by simp
  qed
qed

lemma listed_session_fields [simp]:
  "getitem (listed_session i n st) ''id'' = Inr (JStr i)"
  "getitem (listed_session i n st) ''name'' = Inr (JStr n)"
  "getitem (listed_session i n st) ''livyState'' = Inr (JStr st)"
  by (simp_all add: listed_session_def)

lemma wait_idle_env_of:
  assumes "accessToken w = Some token0"
    and "connect_url (heap w 0) = ''https://host/lakehouse''"
    and "srv (calls w) \<lparr>meth = GET, url = sessions0 @ ''/'' @ i, data = None, hdrs = headers_of token0\<rparr>
           = idle_reply"
  shows "while_True (wait_for_idle (env_of srv) 0 (listed_session i n st)) w
           = Some (Inr (), polled i w)"
  apply (subst while_True.simps)
  using assms
  apply (simp add: wait_for_idle_def http_env_of sessions0_def idle_reply_def
      currentState_def polled_def)
  done







end
